theory Spec2Isabelle
  imports Complex_Main "HOL-Library.Sublist"
begin

section \<open>Data model (models.py)\<close>

text \<open>
  Timestamps are naive UTC datetimes, counted in microseconds. Primary keys are
  integers; a table keyed by its primary key is a map from the key to the row, so a
  row does not repeat its own id (the \<open>User\<close> row does, as \<open>uid\<close>, because handlers
  read \<open>current_user.id\<close>). Tables that are only ever appended to (\<open>Comment\<close>,
  \<open>Attachment\<close>, \<open>Notification\<close>) are lists of rows in insertion order.
\<close>

type_synonym datetime = nat

record user =
  uid :: int
  username :: string
  email :: string
  role :: string

record task =
  title :: string
  description :: "string option"
  service_type :: "string option"
  priority :: string
  status :: string
  deadline :: "datetime option"
  created_at :: datetime
  updated_at :: datetime
  client_id :: int
  creator_id :: int

record comment =
  content :: string
  created_at :: datetime
  task_id :: int
  user_id :: int

record attachment =
  filename :: string
  original_filename :: string
  file_type :: string
  uploaded_at :: datetime
  task_id :: int
  user_id :: int

record notification =
  title :: string
  message :: string
  is_read :: bool
  created_at :: datetime
  user_id :: int
  task_id :: "int option"

section \<open>The world a request handler runs in\<close>

text \<open>A message handed to the mail transport (\<open>flask_mail.Message\<close>).\<close>

record mail_message =
  subject :: string
  recipients :: "string list"
  body :: string
  sender :: string

text \<open>
  The state holds the committed rows of the store, the files saved to the upload
  folder, the wall clock (its last reading), and two logs of the mail side effect:
  \<open>email_calls\<close> has one entry (to, subject, body) for every call of
  \<open>send_task_notification_email\<close>, and \<open>outbox\<close> has every message that was handed
  to \<open>mail.send\<close>, whether or not the transport then raised.
\<close>

record state =
  users :: "int \<rightharpoonup> user"
  tasks :: "int \<rightharpoonup> task"
  task_seq :: int
  comments :: "comment list"
  attachments :: "attachment list"
  notifications :: "notification list"
  uploads :: "(string \<times> string) list"
  email_calls :: "(string \<times> string \<times> string) list"
  outbox :: "mail_message list"
  clock :: datetime

text \<open>
  What lies outside the repository is a parameter of the model, so every theorem
  holds for each behaviour it can have:
  \<^item> \<open>mail_send m\<close> is \<open>True\<close> when \<open>mail.send(m)\<close> returns and \<open>False\<close> when it raises;
  \<^item> \<open>strptime d\<close> is \<open>datetime.strptime(d, '%Y-%m-%dT%H:%M')\<close>, with \<open>None\<close> for
    \<open>ValueError\<close>;
  \<^item> \<open>as_integer x\<close> is the integer the store reads from a text bound to an
    \<open>Integer\<close> column (form fields are text), \<open>None\<close> when the store rejects it;
  \<^item> \<open>elapsed k\<close> is the time that passes before the \<open>k\<close>-th reading of
    \<open>datetime.utcnow\<close> in the request (the wall clock never runs backwards);
  \<^item> \<open>uuid4_hex\<close>, \<open>secure_filename\<close> and \<open>splitext_ext\<close> are \<open>uuid.uuid4().hex\<close>,
    \<open>werkzeug.utils.secure_filename\<close> and \<open>os.path.splitext(_)[1]\<close>.
\<close>

record env =
  mail_send :: "mail_message \<Rightarrow> bool"
  mail_default_sender :: string
  strptime :: "string \<Rightarrow> datetime option"
  as_integer :: "string \<Rightarrow> int option"
  elapsed :: "nat \<Rightarrow> nat"
  uuid4_hex :: string
  secure_filename :: "string \<Rightarrow> string"
  splitext_ext :: "string \<Rightarrow> string"

record upload =
  up_filename :: string
  up_content_type :: "string option"
  up_data :: string

record request =
  http_method :: string
  form :: "string \<rightharpoonup> string"
  headers :: "string \<rightharpoonup> string"
  files :: "string \<rightharpoonup> upload"

text \<open>
  JSON values, as \<open>jsonify\<close> takes them and as \<open>json.loads\<close> returns them;
  \<open>NonFinite\<close> is for the literals \<open>NaN\<close>, \<open>Infinity\<close> and \<open>-Infinity\<close>.
\<close>

datatype jvalue =
    Null
  | Boolean bool
  | Number rat
  | NonFinite string
  | Text string
  | Array "jvalue list"
  | Object "(string \<times> jvalue) list"

text \<open>
  The exceptions of the program: the HTTP errors of \<open>get_or_404\<close> and \<open>abort\<close>, the
  store's refusals, what the text-generation backend and \<open>json.loads\<close> raise (with
  their text), and Python's own.
\<close>

datatype exn =
    NotFound
  | Forbidden
  | IntegrityError
  | DataError
  | BackendError string
  | JSONDecodeError string
  | ValueError string
  | IndexError
  | KeyError
  | TypeError

datatype page =
    Redirect string "(string \<times> int) list"
  | Render string
  | Jsonify "(string \<times> jvalue) list"

text \<open>
  A handler either answers, with the messages it flashed (text, category) and the
  page, or an exception leaves it (\<open>get_or_404\<close>, \<open>abort\<close>, a constraint of the
  schema refused at \<open>commit\<close>).
\<close>

datatype outcome = Reply "(string \<times> string) list" page | Raised exn

text \<open>Python truth of a form field: missing and empty are both false.\<close>

definition truthy :: "string option \<Rightarrow> bool" where
  "truthy x = (case x of None \<Rightarrow> False | Some v \<Rightarrow> v \<noteq> [])"

definition quoted :: "string \<Rightarrow> string" where
  "quoted x = [CHR 0x27] @ x @ [CHR 0x27]"

definition is_xhr :: "request \<Rightarrow> bool" where
  "is_xhr request = (headers request ''X-Requested-With'' = Some ''XMLHttpRequest'')"

section \<open>Writes to the store\<close>

text \<open>
  The store keeps the schema of models.py: a write that breaks a \<open>nullable=False\<close>
  or a \<open>ForeignKey\<close> is refused at \<open>commit\<close> with \<open>IntegrityError\<close> (a text that is
  no integer for an \<open>Integer\<close> column with \<open>DataError\<close>), the exception leaves the
  handler, and nothing of that write is stored. Length limits of the \<open>String\<close>
  columns and failures of the connection are not modelled.

  \<open>db.session.add(row); db.session.commit()\<close> for a \<open>Notification\<close>, a \<open>Comment\<close>
  and an \<open>Attachment\<close>: \<open>user_id\<close> is a foreign key to \<open>user.id\<close> and \<open>task_id\<close> a
  foreign key to \<open>task.id\<close> (nullable for a notification).
\<close>

definition insert_notification :: "notification \<Rightarrow> state \<Rightarrow> exn + state" where
  "insert_notification n s =
     (if users s (notification.user_id n) = None then Inl IntegrityError
      else (case notification.task_id n of
              None \<Rightarrow> Inr (s\<lparr>notifications := notifications s @ [n]\<rparr>)
            | Some k \<Rightarrow>
                if tasks s k = None then Inl IntegrityError
                else Inr (s\<lparr>notifications := notifications s @ [n]\<rparr>)))"

definition insert_comment :: "comment \<Rightarrow> state \<Rightarrow> exn + state" where
  "insert_comment c s =
     (if users s (comment.user_id c) = None \<or> tasks s (comment.task_id c) = None
      then Inl IntegrityError
      else Inr (s\<lparr>comments := comments s @ [c]\<rparr>))"

definition insert_attachment :: "attachment \<Rightarrow> state \<Rightarrow> exn + state" where
  "insert_attachment a s =
     (if users s (attachment.user_id a) = None \<or> tasks s (attachment.task_id a) = None
      then Inl IntegrityError
      else Inr (s\<lparr>attachments := attachments s @ [a]\<rparr>))"

section \<open>utils.py: send\_task\_notification\_email\<close>

definition send_task_notification_email ::
  "env \<Rightarrow> string \<Rightarrow> string \<Rightarrow> string \<Rightarrow> state \<Rightarrow> bool \<times> state" where
  "send_task_notification_email e to subj bdy s =
     (let s1 = s\<lparr>email_calls := email_calls s @ [(to, subj, bdy)]\<rparr> in
      if to = [] then (False, s1)
      else
        let msg = \<lparr>subject = subj, recipients = [to], body = bdy,
                   sender = mail_default_sender e\<rparr>;
            s2 = s1\<lparr>outbox := outbox s1 @ [msg]\<rparr>
        in if mail_send e msg then (True, s2) else (False, s2))"

section \<open>routes.py: update\_task\_status\<close>

definition invalid_status :: "request \<Rightarrow> int \<Rightarrow> outcome" where
  "invalid_status request tid =
     (if is_xhr request
      then Reply [] (Jsonify [(''success'', Boolean False),
                              (''message'', Text ''Invalid status value'')])
      else Reply [(''Invalid status value'', ''danger'')]
                 (Redirect ''client_task_detail'' [(''task_id'', tid)]))"

definition status_updated :: "request \<Rightarrow> int \<Rightarrow> string \<Rightarrow> outcome" where
  "status_updated request tid new_status =
     (if is_xhr request
      then Reply [] (Jsonify [(''success'', Boolean True),
                              (''message'', Text (''Task status updated to '' @ new_status)),
                              (''task_id'', Number (of_int tid)),
                              (''new_status'', Text new_status)])
      else Reply [(''Task status updated to '' @ new_status, ''success'')]
                 (Redirect ''client_task_detail'' [(''task_id'', tid)]))"

definition status_message :: "task \<Rightarrow> string \<Rightarrow> string \<Rightarrow> string" where
  "status_message t old_status new_status =
     ''Task '' @ quoted (task.title t) @ '' status updated from '' @ old_status
       @ '' to '' @ new_status"

definition update_task_status ::
  "env \<Rightarrow> user \<Rightarrow> request \<Rightarrow> int \<Rightarrow> state \<Rightarrow> outcome \<times> state" where
  "update_task_status e current_user request tid s =
     (case tasks s tid of
        None \<Rightarrow> (Raised NotFound, s)
      | Some t \<Rightarrow>
          if task.client_id t \<noteq> uid current_user then
            (if is_xhr request
             then (Reply [] (Jsonify [(''success'', Boolean False),
                     (''message'', Text ''You are not authorized to update this task'')]), s)
             else (Reply [(''You are not authorized to update this task'', ''danger'')]
                     (Redirect ''client_tasks'' []), s))
          else
            (case form request ''status'' of
               None \<Rightarrow> (invalid_status request tid, s)
             | Some new_status \<Rightarrow>
                 if new_status \<in> set [''pending'', ''in-progress'', ''completed''] then
                   (if status t \<noteq> new_status then
                      let old_status = status t;
                          now = clock s + elapsed e 0;
                          t1 = t\<lparr>status := new_status, updated_at := now\<rparr>;
                          made = now + elapsed e 1;
                          s1 = s\<lparr>tasks := (tasks s)(tid \<mapsto> t1), clock := made\<rparr>;
                          n = \<lparr>notification.title = ''Task Status Updated'',
                               message = status_message t1 old_status new_status,
                               is_read = False,
                               notification.created_at = made,
                               notification.user_id = creator_id t1,
                               notification.task_id = Some tid\<rparr>
                      in (case insert_notification n s1 of
                            Inl err \<Rightarrow> (Raised err, s1)
                          | Inr s2 \<Rightarrow>
                              (case users s2 (creator_id t1) of
                                 None \<Rightarrow> (status_updated request tid new_status, s2)
                               | Some admin \<Rightarrow>
                                   (status_updated request tid new_status,
                                    snd (send_task_notification_email e (email admin)
                                           ''Task Status Updated''
                                           (status_message t1 old_status new_status) s2))))
                    else (status_updated request tid new_status, s))
                 else (invalid_status request tid, s)))"

section \<open>routes.py: new\_task\<close>

text \<open>
  The deadline field of the two task forms: skipped when missing or empty, parsed
  with the fixed format otherwise, and \<open>Malformed\<close> when \<open>strptime\<close> raises
  \<open>ValueError\<close>.
\<close>

datatype deadline_field = Absent | Parsed datetime | Malformed

definition read_deadline :: "env \<Rightarrow> string option \<Rightarrow> deadline_field" where
  "read_deadline e deadline_str =
     (if truthy deadline_str then
        (case deadline_str of
           None \<Rightarrow> Absent
         | Some d \<Rightarrow> (case strptime e d of None \<Rightarrow> Malformed | Some dt \<Rightarrow> Parsed dt))
      else Absent)"

text \<open>
  \<open>db.session.add(new_task); db.session.commit()\<close>. The INSERT leaves out the
  attributes that are \<open>None\<close>, so a missing priority takes the column default
  \<open>'medium'\<close>; \<open>created_at\<close> and \<open>updated_at\<close> each take their own column default, two
  calls of \<open>datetime.utcnow\<close>, in the order of the columns. The result is the new
  row's id and the store with the row.
\<close>

definition insert_task ::
  "env \<Rightarrow> string \<Rightarrow> string option \<Rightarrow> string option \<Rightarrow> string option \<Rightarrow> datetime option
     \<Rightarrow> string \<Rightarrow> int \<Rightarrow> string \<Rightarrow> state \<Rightarrow> exn + (int \<times> state)" where
  "insert_task e title0 description0 service_type0 priority0 deadline0 client_id0 creator_id0
     status0 s =
     (case as_integer e client_id0 of
        None \<Rightarrow> Inl DataError
      | Some cid \<Rightarrow>
          if users s cid = None \<or> users s creator_id0 = None then Inl IntegrityError
          else
            let made = clock s + elapsed e 0;
                changed = made + elapsed e 1;
                t = \<lparr>task.title = title0, description = description0,
                     service_type = service_type0,
                     priority = (case priority0 of None \<Rightarrow> ''medium'' | Some p \<Rightarrow> p),
                     status = status0, deadline = deadline0,
                     task.created_at = made, updated_at = changed,
                     client_id = cid, creator_id = creator_id0\<rparr>
            in Inr (task_seq s,
                    s\<lparr>tasks := (tasks s)(task_seq s \<mapsto> t), task_seq := task_seq s + 1,
                      clock := changed\<rparr>))"

definition assigned_message :: "string \<Rightarrow> string" where
  "assigned_message title0 = ''You have been assigned a new task: '' @ title0"

definition new_task :: "env \<Rightarrow> user \<Rightarrow> request \<Rightarrow> state \<Rightarrow> outcome \<times> state" where
  "new_task e current_user request s =
     (if http_method request = ''POST'' then
        (case (form request ''title'', form request ''client_id'') of
           (Some title0, Some client_id0) \<Rightarrow>
             if title0 = [] \<or> client_id0 = [] then
               (Reply [(''Title and client are required!'', ''danger'')]
                  (Render ''admin/task_form.html''), s)
             else
               (case read_deadline e (form request ''deadline'') of
                  Malformed \<Rightarrow>
                    (Reply [(''Invalid deadline format'', ''danger'')]
                       (Render ''admin/task_form.html''), s)
                | dl \<Rightarrow>
                    (case insert_task e title0 (form request ''description'')
                            (form request ''service_type'') (form request ''priority'')
                            (case dl of Parsed dt \<Rightarrow> Some dt | _ \<Rightarrow> None)
                            client_id0 (uid current_user) ''pending'' s of
                       Inl err \<Rightarrow> (Raised err, s)
                     | Inr (new_id, s1) \<Rightarrow>
                         (case as_integer e client_id0 of
                            None \<Rightarrow> (Raised DataError, s1)
                          | Some cid \<Rightarrow>
                              let made = clock s1 + elapsed e 2;
                                  s2 = s1\<lparr>clock := made\<rparr>;
                                  n = \<lparr>notification.title = ''New Task Assigned'',
                                       message = assigned_message title0,
                                       is_read = False,
                                       notification.created_at = made,
                                       notification.user_id = cid,
                                       notification.task_id = Some new_id\<rparr>
                              in (case insert_notification n s2 of
                                    Inl err \<Rightarrow> (Raised err, s2)
                                  | Inr s3 \<Rightarrow>
                                      (Reply [(''Task created successfully!'', ''success'')]
                                         (Redirect ''admin_tasks'' []),
                                       (case users s3 cid of
                                          None \<Rightarrow> s3
                                        | Some client \<Rightarrow>
                                            snd (send_task_notification_email e (email client)
                                                   ''New Task Assigned''
                                                   (assigned_message title0) s3)))))))
         | _ \<Rightarrow>
             (Reply [(''Title and client are required!'', ''danger'')]
                (Render ''admin/task_form.html''), s))
      else (Reply [] (Render ''admin/task_form.html''), s))"

section \<open>routes.py: edit\_task\<close>

text \<open>
  The UPDATE that \<open>edit_task\<close> has pending after its assignments: the row as the
  store would hold it, or the constraint it breaks. \<open>title\<close>, \<open>priority\<close> and
  \<open>client_id\<close> are \<open>nullable=False\<close>. The submitted \<open>client_id\<close> is text and the
  loaded one an integer, so the row always counts as changed: the UPDATE is always
  issued and \<open>onupdate=datetime.utcnow\<close> sets \<open>updated_at\<close>.
\<close>

definition update_task ::
  "env \<Rightarrow> state \<Rightarrow> task \<Rightarrow> string option \<Rightarrow> string option \<Rightarrow> string option
     \<Rightarrow> string option \<Rightarrow> string option \<Rightarrow> datetime option \<Rightarrow> exn + task" where
  "update_task e s t title0 description0 client_id0 service_type0 priority0 deadline0 =
     (case title0 of
        None \<Rightarrow> Inl IntegrityError
      | Some ti \<Rightarrow>
          (case priority0 of
             None \<Rightarrow> Inl IntegrityError
           | Some pr \<Rightarrow>
               (case client_id0 of
                  None \<Rightarrow> Inl IntegrityError
                | Some ci \<Rightarrow>
                    (case as_integer e ci of
                       None \<Rightarrow> Inl DataError
                     | Some cid \<Rightarrow>
                         if users s cid = None then Inl IntegrityError
                         else Inr (t\<lparr>task.title := ti, description := description0,
                                     client_id := cid, service_type := service_type0,
                                     priority := pr, deadline := deadline0,
                                     updated_at := clock s + elapsed e 0\<rparr>)))))"

definition updated_message :: "task \<Rightarrow> string" where
  "updated_message t = ''A task assigned to you has been updated: '' @ task.title t"

text \<open>
  On a malformed deadline the handler flashes the error and renders the form again
  without a \<open>commit\<close>. Rendering queries the clients, which first flushes the
  pending UPDATE to the store inside the open transaction (so a broken constraint
  still raises); the request ends without \<open>commit\<close> and the session is rolled back,
  so the store keeps the rows it had.
\<close>

definition edit_task :: "env \<Rightarrow> user \<Rightarrow> request \<Rightarrow> int \<Rightarrow> state \<Rightarrow> outcome \<times> state" where
  "edit_task e current_user request tid s =
     (case tasks s tid of
        None \<Rightarrow> (Raised NotFound, s)
      | Some t \<Rightarrow>
          if creator_id t \<noteq> uid current_user then
            (Reply [(''You are not authorized to edit this task'', ''danger'')]
               (Redirect ''admin_tasks'' []), s)
          else if http_method request = ''POST'' then
            (case read_deadline e (form request ''deadline'') of
               Malformed \<Rightarrow>
                 (case update_task e s t (form request ''title'') (form request ''description'')
                         (form request ''client_id'') (form request ''service_type'')
                         (form request ''priority'') (deadline t) of
                    Inl err \<Rightarrow> (Raised err, s)
                  | Inr _ \<Rightarrow>
                      (Reply [(''Invalid deadline format'', ''danger'')]
                         (Render ''admin/task_form.html''), s))
             | dl \<Rightarrow>
                 (case update_task e s t (form request ''title'') (form request ''description'')
                         (form request ''client_id'') (form request ''service_type'')
                         (form request ''priority'')
                         (case dl of Parsed dt \<Rightarrow> Some dt | _ \<Rightarrow> deadline t) of
                    Inl err \<Rightarrow> (Raised err, s)
                  | Inr t1 \<Rightarrow>
                      let s1 = s\<lparr>tasks := (tasks s)(tid \<mapsto> t1), clock := updated_at t1\<rparr>;
                          made = clock s1 + elapsed e 1;
                          s2 = s1\<lparr>clock := made\<rparr>;
                          n = \<lparr>notification.title = ''Task Updated'',
                               message = updated_message t1,
                               is_read = False,
                               notification.created_at = made,
                               notification.user_id = client_id t1,
                               notification.task_id = Some tid\<rparr>
                      in (case insert_notification n s2 of
                            Inl err \<Rightarrow> (Raised err, s2)
                          | Inr s3 \<Rightarrow>
                              (Reply [(''Task updated successfully!'', ''success'')]
                                 (Redirect ''admin_tasks'' []),
                               (case users s3 (client_id t1) of
                                  None \<Rightarrow> s3
                                | Some client \<Rightarrow>
                                    snd (send_task_notification_email e (email client)
                                           ''Task Updated'' (updated_message t1) s3))))))
          else (Reply [] (Render ''admin/task_form.html''), s))"

section \<open>routes.py: delete\_task\<close>

text \<open>
  The relationship cascade deletes the task's comments and attachments with it.
  Notifications have no cascade, so a notification that still refers to the task
  makes the store refuse the DELETE.
\<close>

definition delete_task :: "user \<Rightarrow> int \<Rightarrow> state \<Rightarrow> outcome \<times> state" where
  "delete_task current_user tid s =
     (case tasks s tid of
        None \<Rightarrow> (Raised NotFound, s)
      | Some t \<Rightarrow>
          if creator_id t \<noteq> uid current_user then
            (Reply [(''You are not authorized to delete this task'', ''danger'')]
               (Redirect ''admin_tasks'' []), s)
          else if list_ex (\<lambda>n. notification.task_id n = Some tid) (notifications s) then
            (Raised IntegrityError, s)
          else
            (Reply [(''Task deleted successfully!'', ''success'')] (Redirect ''admin_tasks'' []),
             s\<lparr>tasks := (tasks s)(tid := None),
               comments := filter (\<lambda>c. comment.task_id c \<noteq> tid) (comments s),
               attachments := filter (\<lambda>a. attachment.task_id a \<noteq> tid) (attachments s)\<rparr>))"

section \<open>routes.py: add\_comment and upload\_attachment\<close>

definition back_to_task :: "user \<Rightarrow> int \<Rightarrow> page" where
  "back_to_task current_user tid =
     (if role current_user = ''admin'' then Redirect ''admin_tasks'' []
      else Redirect ''client_task_detail'' [(''task_id'', tid)])"

definition back_to_list :: "user \<Rightarrow> page" where
  "back_to_list current_user =
     (if role current_user = ''admin'' then Redirect ''admin_tasks'' []
      else Redirect ''client_tasks'' [])"

definition other_party :: "user \<Rightarrow> task \<Rightarrow> int" where
  "other_party current_user t =
     (if uid current_user = creator_id t then client_id t else creator_id t)"

definition add_comment :: "env \<Rightarrow> user \<Rightarrow> request \<Rightarrow> int \<Rightarrow> state \<Rightarrow> outcome \<times> state" where
  "add_comment e current_user request tid s =
     (case tasks s tid of
        None \<Rightarrow> (Raised NotFound, s)
      | Some t \<Rightarrow>
          if uid current_user \<noteq> client_id t \<and> uid current_user \<noteq> creator_id t then
            (Reply [(''You are not authorized to comment on this task'', ''danger'')]
               (back_to_list current_user), s)
          else
            (case form request ''content'' of
               None \<Rightarrow>
                 (Reply [(''Comment cannot be empty'', ''danger'')]
                    (back_to_task current_user tid), s)
             | Some content0 \<Rightarrow>
                 if content0 = [] then
                   (Reply [(''Comment cannot be empty'', ''danger'')]
                      (back_to_task current_user tid), s)
                 else
                   let written = clock s + elapsed e 0;
                       c = \<lparr>content = content0, comment.created_at = written,
                            comment.task_id = tid, comment.user_id = uid current_user\<rparr>
                   in (case insert_comment c (s\<lparr>clock := written\<rparr>) of
                         Inl err \<Rightarrow> (Raised err, s)
                       | Inr s1 \<Rightarrow>
                           let recipient_id = other_party current_user t;
                               made = clock s1 + elapsed e 1;
                               s2 = s1\<lparr>clock := made\<rparr>;
                               n = \<lparr>notification.title = ''New Comment'',
                                    message = ''New comment on task '' @ quoted (task.title t),
                                    is_read = False,
                                    notification.created_at = made,
                                    notification.user_id = recipient_id,
                                    notification.task_id = Some tid\<rparr>
                           in (case insert_notification n s2 of
                                 Inl err \<Rightarrow> (Raised err, s2)
                               | Inr s3 \<Rightarrow>
                                   (Reply [(''Comment added successfully'', ''success'')]
                                      (back_to_task current_user tid), s3)))))"

text \<open>
  \<open>file.save\<close> writes the upload under the upload folder of app.py before the row
  is committed. A \<open>FileStorage\<close> is true exactly when its filename is not empty.
\<close>

definition upload_attachment ::
  "env \<Rightarrow> user \<Rightarrow> request \<Rightarrow> int \<Rightarrow> state \<Rightarrow> outcome \<times> state" where
  "upload_attachment e current_user request tid s =
     (case tasks s tid of
        None \<Rightarrow> (Raised NotFound, s)
      | Some t \<Rightarrow>
          if uid current_user \<noteq> client_id t \<and> uid current_user \<noteq> creator_id t then
            (Reply [(''You are not authorized to upload attachments to this task'', ''danger'')]
               (back_to_list current_user), s)
          else
            (case files request ''file'' of
               None \<Rightarrow> (Reply [(''No file part'', ''danger'')] (back_to_task current_user tid), s)
             | Some file \<Rightarrow>
                 if up_filename file = [] then
                   (Reply [(''No selected file'', ''danger'')] (back_to_task current_user tid), s)
                 else if up_filename file \<noteq> [] then
                   let original = secure_filename e (up_filename file);
                       file_ext = splitext_ext e original;
                       unique_filename = uuid4_hex e @ file_ext;
                       file_path = ''static/uploads/'' @ unique_filename;
                       s0 = s\<lparr>uploads := uploads s @ [(file_path, up_data file)]\<rparr>
                   in (case up_content_type file of
                         None \<Rightarrow> (Raised IntegrityError, s0)
                       | Some ctype \<Rightarrow>
                           let stored = clock s0 + elapsed e 0;
                               a = \<lparr>filename = unique_filename, original_filename = original,
                                    file_type = ctype, uploaded_at = stored,
                                    attachment.task_id = tid,
                                    attachment.user_id = uid current_user\<rparr>
                           in (case insert_attachment a (s0\<lparr>clock := stored\<rparr>) of
                                 Inl err \<Rightarrow> (Raised err, s0)
                               | Inr s1 \<Rightarrow>
                                   let recipient_id = other_party current_user t;
                                       made = clock s1 + elapsed e 1;
                                       s2 = s1\<lparr>clock := made\<rparr>;
                                       n = \<lparr>notification.title = ''New Attachment'',
                                            message = ''New file attached to task ''
                                                        @ quoted (task.title t),
                                            is_read = False,
                                            notification.created_at = made,
                                            notification.user_id = recipient_id,
                                            notification.task_id = Some tid\<rparr>
                                   in (case insert_notification n s2 of
                                         Inl err \<Rightarrow> (Raised err, s2)
                                       | Inr s3 \<Rightarrow>
                                           (Reply [(''File uploaded successfully'', ''success'')]
                                              (back_to_task current_user tid), s3))))
                 else (Reply [] (back_to_task current_user tid), s)))"

section \<open>routes.py: mark\_notification\_read\<close>

text \<open>A notification's id is its position in the table.\<close>

definition mark_notification_read :: "user \<Rightarrow> nat \<Rightarrow> state \<Rightarrow> outcome \<times> state" where
  "mark_notification_read current_user nid s =
     (if nid < length (notifications s) then
        let n = notifications s ! nid in
        if notification.user_id n \<noteq> uid current_user then (Raised Forbidden, s)
        else (Reply [] (Jsonify [(''success'', Boolean True)]),
              s\<lparr>notifications := (notifications s)[nid := n\<lparr>is_read := True\<rparr>]\<rparr>)
      else (Raised NotFound, s))"

section \<open>utils.py: the AI drafting adapter\<close>

text \<open>
  A request to \<open>openai_client.chat.completions.create\<close>. The backend is a
  parameter: it raises, or it answers with the \<open>message.content\<close> of each of its
  choices (\<open>None\<close> for no content).
\<close>

record chat_request =
  model :: string
  messages :: "(string \<times> string) list"
  response_format :: "string option"
  temperature :: rat
  max_tokens :: nat

type_synonym backend = "chat_request \<Rightarrow> exn + string option list"

text \<open>\<open>response.choices[0].message.content\<close>: \<open>IndexError\<close> when there is no choice.\<close>

definition first_content :: "string option list \<Rightarrow> exn + string option" where
  "first_content choices = (case choices of [] \<Rightarrow> Inl IndexError | c # _ \<Rightarrow> Inr c)"

text \<open>
  Python's \<open>k in v\<close> and \<open>v[k]\<close> for a text \<open>k\<close> and a value \<open>v\<close> that \<open>json.loads\<close>
  returned: a dictionary is asked for the key, a list for an equal item, a text for
  the substring, and anything else raises \<open>TypeError\<close>; only a dictionary can be
  indexed by a text. An object is held as its items, each key once.
\<close>

definition py_in :: "string \<Rightarrow> jvalue \<Rightarrow> exn + bool" where
  "py_in k v =
     (case v of
        Object items \<Rightarrow> Inr (k \<in> set (map fst items))
      | Array xs \<Rightarrow> Inr (Text k \<in> set xs)
      | Text x \<Rightarrow> Inr (sublist k x)
      | _ \<Rightarrow> Inl TypeError)"

definition py_getitem :: "jvalue \<Rightarrow> string \<Rightarrow> exn + jvalue" where
  "py_getitem v k =
     (case v of
        Object items \<Rightarrow> (case map_of items k of None \<Rightarrow> Inl KeyError | Some x \<Rightarrow> Inr x)
      | _ \<Rightarrow> Inl TypeError)"

subsection \<open>generate\_ai\_task\_description\<close>

definition description_prompt :: "string \<Rightarrow> string \<Rightarrow> string option \<Rightarrow> string option \<Rightarrow> string" where
  "description_prompt service_type0 keywords client_name priority0 =
     ''Generate a professional '' @ service_type0 @ '' task''
     @ (case client_name of
          None \<Rightarrow> []
        | Some c \<Rightarrow> if c = [] then [] else '' for client '' @ c)
     @ (case priority0 of
          None \<Rightarrow> []
        | Some p \<Rightarrow> if p = [] then [] else '' with '' @ p @ '' priority'')
     @ ''. Task keywords: '' @ keywords
     @ [CHR 0x0A] @ ''Format the response as JSON with '' @ quoted ''title''
     @ '' (max 10 words) and '' @ quoted ''description'' @ '' (2-3 paragraphs) fields.''"

definition description_request :: "string \<Rightarrow> string \<Rightarrow> string option \<Rightarrow> string option \<Rightarrow> chat_request" where
  "description_request service_type0 keywords client_name priority0 =
     \<lparr>model = ''gpt-4o'',
      messages =
        [(''system'', ''You are a professional '' @ service_type0
            @ '' task description generator. Create clear, concise task descriptions that follow industry standards.''),
         (''user'', description_prompt service_type0 keywords client_name priority0)],
      response_format = Some ''json_object'',
      temperature = 7 / 10,
      max_tokens = 500\<rparr>"

text \<open>
  The dictionary the function returns. \<open>error\<close> is the exception \<open>e\<close> whose text
  \<open>str(e)\<close> the dictionary carries; the key is absent on success.
\<close>

record draft =
  title :: jvalue
  description :: jvalue
  success :: bool
  error :: "exn option"

text \<open>The body of the \<open>try\<close>: the title and description it reaches, or what it raises.\<close>

definition draft_fields ::
  "backend \<Rightarrow> (string \<Rightarrow> exn + jvalue) \<Rightarrow> string \<Rightarrow> string \<Rightarrow> string option \<Rightarrow> string option
     \<Rightarrow> exn + (jvalue \<times> jvalue)" where
  "draft_fields create loads service_type0 keywords client_name priority0 =
     (case create (description_request service_type0 keywords client_name priority0) of
        Inl ex \<Rightarrow> Inl ex
      | Inr choices \<Rightarrow>
          (case first_content choices of
             Inl ex \<Rightarrow> Inl ex
           | Inr None \<Rightarrow> Inl (ValueError ''No content received from AI'')
           | Inr (Some content0) \<Rightarrow>
               (case loads content0 of
                  Inl ex \<Rightarrow> Inl ex
                | Inr result \<Rightarrow>
                    (case py_in ''title'' result of
                       Inl ex \<Rightarrow> Inl ex
                     | Inr has_title \<Rightarrow>
                         if \<not> has_title
                         then Inl (ValueError ''AI response missing required fields'')
                         else
                           (case py_in ''description'' result of
                              Inl ex \<Rightarrow> Inl ex
                            | Inr has_description \<Rightarrow>
                                if \<not> has_description
                                then Inl (ValueError ''AI response missing required fields'')
                                else
                                  (case py_getitem result ''title'' of
                                     Inl ex \<Rightarrow> Inl ex
                                   | Inr t \<Rightarrow>
                                       (case py_getitem result ''description'' of
                                          Inl ex \<Rightarrow> Inl ex
                                        | Inr d \<Rightarrow> Inr (t, d))))))))"

definition generate_ai_task_description ::
  "backend \<Rightarrow> (string \<Rightarrow> exn + jvalue) \<Rightarrow> string \<Rightarrow> string \<Rightarrow> string option \<Rightarrow> string option
     \<Rightarrow> draft" where
  "generate_ai_task_description create loads service_type0 keywords client_name priority0 =
     (case draft_fields create loads service_type0 keywords client_name priority0 of
        Inr (t, d) \<Rightarrow>
          \<lparr>draft.title = t, draft.description = d, success = True, error = None\<rparr>
      | Inl ex \<Rightarrow>
          \<lparr>draft.title = Text [], draft.description = Text [], success = False,
           error = Some ex\<rparr>)"

text \<open>The dictionary of the \<open>except\<close> branch.\<close>

definition failed_draft :: "exn \<Rightarrow> draft" where
  "failed_draft ex = \<lparr>draft.title = Text [], draft.description = Text [], success = False,
                      error = Some ex\<rparr>"

subsection \<open>analyze\_task\_priority\<close>

definition digit :: "nat \<Rightarrow> char" where
  "digit n = char_of (48 + n)"

function str_nat :: "nat \<Rightarrow> string" where
  "str_nat n = (if n < 10 then [digit n] else str_nat (n div 10) @ [digit (n mod 10)])"
  by pat_completeness auto
termination
  by (relation "measure id") auto

declare str_nat.simps [simp del]

definition str_int :: "int \<Rightarrow> string" where
  "str_int i = (if i < 0 then CHR ''-'' # str_nat (nat (- i)) else str_nat (nat i))"

definition priority_prompt :: "string \<Rightarrow> int option \<Rightarrow> string" where
  "priority_prompt task_description deadline_days =
     ''Analyze this task description and recommend a priority level (low, medium, or high):''
     @ [CHR 0x0A, CHR 0x0A] @ task_description
     @ (case deadline_days of
          None \<Rightarrow> []
        | Some n \<Rightarrow> [CHR 0x0A, CHR 0x0A] @ ''The deadline for this task is '' @ str_int n
                     @ '' days from now.'')"

definition priority_request :: "string \<Rightarrow> int option \<Rightarrow> chat_request" where
  "priority_request task_description deadline_days =
     \<lparr>model = ''gpt-4o'',
      messages =
        [(''system'', ''You are a task priority analyzer. Respond with only '' @ quoted ''low''
            @ '', '' @ quoted ''medium'' @ '', or '' @ quoted ''high''
            @ '' based on task urgency and importance.''),
         (''user'', priority_prompt task_description deadline_days)],
      response_format = None,
      temperature = 3 / 10,
      max_tokens = 50\<rparr>"

text \<open>
  \<open>strip\<close> and \<open>lower\<close> are \<open>str.strip\<close> and \<open>str.lower\<close>, parameters like the backend:
  Python's are defined on all of Unicode.
\<close>

definition analyze_task_priority ::
  "backend \<Rightarrow> (string \<Rightarrow> string) \<Rightarrow> (string \<Rightarrow> string) \<Rightarrow> string \<Rightarrow> int option \<Rightarrow> string" where
  "analyze_task_priority create strip lower task_description deadline_days =
     (case create (priority_request task_description deadline_days) of
        Inl ex \<Rightarrow> ''medium''
      | Inr choices \<Rightarrow>
          (case first_content choices of
             Inl ex \<Rightarrow> ''medium''
           | Inr None \<Rightarrow> ''medium''
           | Inr (Some content0) \<Rightarrow>
               let suggested_priority = lower (strip content0) in
               if suggested_priority \<in> set [''low'', ''medium'', ''high'']
               then suggested_priority
               else ''medium''))"

section \<open>Observation points\<close>

text \<open>
  One step is one request served by a handler that writes to the store. \<open>register\<close>
  only adds a row to the user table; the step \<open>registered\<close> allows any change of
  that table. A state is reachable when such steps lead to it from a store that
  holds no task yet.
\<close>

inductive step :: "state \<Rightarrow> state \<Rightarrow> bool" where
  created: "step s (snd (new_task e current_user request s))"
| edited: "step s (snd (edit_task e current_user request tid s))"
| deleted: "step s (snd (delete_task current_user tid s))"
| status_set: "step s (snd (update_task_status e current_user request tid s))"
| commented: "step s (snd (add_comment e current_user request tid s))"
| attached: "step s (snd (upload_attachment e current_user request tid s))"
| marked_read: "step s (snd (mark_notification_read current_user nid s))"
| registered: "step s (s\<lparr>users := us\<rparr>)"

inductive reachable :: "state \<Rightarrow> bool" where
  fresh: "tasks s = Map.empty \<Longrightarrow> reachable s"
| later: "reachable s \<Longrightarrow> step s s' \<Longrightarrow> reachable s'"

text \<open>
  Every stored task was updated no earlier than it was created and no later than
  the last reading of the clock.
\<close>

definition timestamps_ok :: "state \<Rightarrow> bool" where
  "timestamps_ok s =
     (\<forall>tid t. tasks s tid = Some t \<longrightarrow>
        task.created_at t \<le> updated_at t \<and> updated_at t \<le> clock s)"

text \<open>
  What one step may do to the task table: the clock does not go back, and a row of
  the later table is a row of the earlier one, or it was written during the step,
  as a new row or over a row whose \<open>created_at\<close> it keeps.
\<close>

definition touched :: "state \<Rightarrow> state \<Rightarrow> bool" where
  "touched s s' =
     (clock s \<le> clock s' \<and>
      (\<forall>tid t'. tasks s' tid = Some t' \<longrightarrow>
         tasks s tid = Some t' \<or>
         (clock s \<le> updated_at t' \<and> updated_at t' \<le> clock s' \<and>
          (task.created_at t' \<le> updated_at t' \<or>
           (\<exists>t. tasks s tid = Some t \<and> task.created_at t' = task.created_at t)))))"

section \<open>A small office, for concrete runs\<close>

definition alice :: user where
  "alice = \<lparr>uid = 1, username = ''alice'', email = ''alice@example.com'', role = ''admin''\<rparr>"

definition bob :: user where
  "bob = \<lparr>uid = 2, username = ''bob'', email = ''bob@example.com'', role = ''client''\<rparr>"

definition carol :: user where
  "carol = \<lparr>uid = 3, username = ''carol'', email = ''carol@example.com'', role = ''client''\<rparr>"

definition report :: task where
  "report = \<lparr>task.title = ''Quarterly report'', description = None,
             service_type = Some ''Consulting'', priority = ''medium'', status = ''pending'',
             deadline = None, task.created_at = 100, updated_at = 100,
             client_id = 2, creator_id = 1\<rparr>"

text \<open>Three users and no task yet.\<close>

definition startup :: state where
  "startup = \<lparr>users = [1 \<mapsto> alice, 2 \<mapsto> bob, 3 \<mapsto> carol],
              tasks = Map.empty, task_seq = 1,
              comments = [], attachments = [], notifications = [],
              uploads = [], email_calls = [], outbox = [], clock = 50\<rparr>"

text \<open>Alice has given Bob one task, which is still pending.\<close>

definition office :: state where
  "office = \<lparr>users = [1 \<mapsto> alice, 2 \<mapsto> bob, 3 \<mapsto> carol],
             tasks = [1 \<mapsto> report], task_seq = 2,
             comments = [], attachments = [],
             notifications =
               [\<lparr>notification.title = ''New Task Assigned'',
                 message = ''You have been assigned a new task: Quarterly report'',
                 is_read = False, notification.created_at = 100,
                 notification.user_id = 2, notification.task_id = Some 1\<rparr>],
             uploads = [], email_calls = [], outbox = [], clock = 200\<rparr>"

text \<open>A store that reads plain decimal numerals as integers.\<close>

fun decimal_digits :: "string \<Rightarrow> nat \<Rightarrow> nat option" where
  "decimal_digits [] acc = Some acc"
| "decimal_digits (c # cs) acc =
     (if 48 \<le> (of_char c :: nat) \<and> (of_char c :: nat) \<le> 57
      then decimal_digits cs (10 * acc + (of_char c - 48))
      else None)"

definition decimal :: "string \<Rightarrow> int option" where
  "decimal x = (if x = [] then None else map_option int (decimal_digits x 0))"

text \<open>
  \<open>strptime\<close> at the texts the runs below submit: \<open>2025-01-31T09:30\<close> is in the
  format (the value is its distance from \<open>datetime.min\<close> in microseconds), and no
  other text is submitted but \<open>tomorrow\<close>, which is not.
\<close>

definition sample_strptime :: "string \<Rightarrow> datetime option" where
  "sample_strptime d = (if d = ''2025-01-31T09:30'' then Some 63873912600000000 else None)"

text \<open>A transport that always raises, and a clock that ticks between readings.\<close>

definition office_env :: env where
  "office_env = \<lparr>mail_send = (\<lambda>m. False), mail_default_sender = ''noreply@smarttask.com'',
                 strptime = sample_strptime, as_integer = decimal,
                 elapsed = (\<lambda>k. Suc k),
                 uuid4_hex = ''9f1c2d3e4b5a69788796a5b4c3d2e1f0'',
                 secure_filename = (\<lambda>x. x),
                 splitext_ext = (\<lambda>x. if x = ''notes.txt'' then ''.txt'' else [])\<rparr>"

definition post :: "(string \<times> string) list \<Rightarrow> request" where
  "post entries = \<lparr>http_method = ''POST'', form = map_of entries, headers = Map.empty,
                   files = Map.empty\<rparr>"

definition post_file :: "upload \<Rightarrow> request" where
  "post_file f = \<lparr>http_method = ''POST'', form = Map.empty, headers = Map.empty,
                  files = [''file'' \<mapsto> f]\<rparr>"

text \<open>Backends that cannot be reached or that answer with given choices.\<close>

definition unreachable :: backend where
  "unreachable = (\<lambda>r. Inl (BackendError ''Connection error.''))"

definition answers :: "string option list \<Rightarrow> backend" where
  "answers choices = (\<lambda>r. Inr choices)"

text \<open>\<open>str.strip\<close> and \<open>str.lower\<close> on ASCII text.\<close>

definition ascii_space :: "char \<Rightarrow> bool" where
  "ascii_space c =
     ((9 \<le> (of_char c :: nat) \<and> (of_char c :: nat) \<le> 13)
      \<or> (28 \<le> (of_char c :: nat) \<and> (of_char c :: nat) \<le> 32))"

definition ascii_strip :: "string \<Rightarrow> string" where
  "ascii_strip x = rev (dropWhile ascii_space (rev (dropWhile ascii_space x)))"

definition ascii_lower :: "string \<Rightarrow> string" where
  "ascii_lower x =
     map (\<lambda>c. if 65 \<le> (of_char c :: nat) \<and> (of_char c :: nat) \<le> 90
              then char_of (of_char c + 32 :: nat) else c) x"

text \<open>
  Three payloads and what \<open>json.loads\<close> returns for them; every other text the runs
  below use is not JSON.
\<close>

definition dquoted :: "string \<Rightarrow> string" where
  "dquoted x = [CHR 0x22] @ x @ [CHR 0x22]"

definition full_payload :: string where
  "full_payload = ''{'' @ dquoted ''title'' @ '': '' @ dquoted ''Audit the ledger'' @ '', ''
     @ dquoted ''description'' @ '': '' @ dquoted ''Check every entry.'' @ ''}''"

definition empty_payload :: string where
  "empty_payload = ''{'' @ dquoted ''title'' @ '': '' @ dquoted [] @ '', ''
     @ dquoted ''description'' @ '': '' @ dquoted [] @ ''}''"

definition partial_payload :: string where
  "partial_payload = ''{'' @ dquoted ''title'' @ '': '' @ dquoted ''Audit the ledger'' @ ''}''"

definition sample_loads :: "string \<Rightarrow> exn + jvalue" where
  "sample_loads x =
     (if x = full_payload
      then Inr (Object [(''title'', Text ''Audit the ledger''),
                        (''description'', Text ''Check every entry.'')])
      else if x = empty_payload
      then Inr (Object [(''title'', Text []), (''description'', Text [])])
      else if x = partial_payload
      then Inr (Object [(''title'', Text ''Audit the ledger'')])
      else Inl (JSONDecodeError ''Expecting value: line 1 column 1 (char 0)''))"

text \<open>Forms and files the runs below submit.\<close>

definition audit_form :: request where
  "audit_form = post [(''title'', ''Audit''), (''client_id'', ''2''), (''status'', ''completed'')]"

definition late_form :: request where
  "late_form = post [(''title'', ''Annual report''), (''client_id'', ''3''),
                     (''priority'', ''high''), (''deadline'', ''tomorrow'')]"

definition dated_form :: request where
  "dated_form = post [(''title'', ''Annual report''), (''client_id'', ''3''),
                      (''priority'', ''high''), (''deadline'', ''2025-01-31T09:30'')]"

definition notes_file :: request where
  "notes_file = post_file \<lparr>up_filename = ''notes.txt'', up_content_type = Some ''text/plain'',
                           up_data = ''to do''\<rparr>"

section \<open>Status updates\<close>

lemma status_change_effects:
  assumes "tasks s tid = Some t"
    and "task.client_id t = uid current_user"
    and "form request ''status'' = Some new_status"
    and "new_status \<in> set [''pending'', ''in-progress'', ''completed'']"
    and "status t \<noteq> new_status"
    and "users s (creator_id t) = Some admin"
  shows "\<exists>s' n.
      update_task_status e current_user request tid s
        = (status_updated request tid new_status, s')
    \<and> tasks s' = (tasks s)(tid \<mapsto> t\<lparr>status := new_status,
                                      updated_at := clock s + elapsed e 0\<rparr>)
    \<and> notifications s' = notifications s @ [n]
    \<and> notification.user_id n = creator_id t
    \<and> notification.task_id n = Some tid
    \<and> message n = status_message t (status t) new_status
    \<and> email_calls s' = email_calls s @ [(email admin, ''Task Status Updated'', message n)]
    \<and> outbox s' =
        (if email admin = [] then outbox s
         else outbox s @ [\<lparr>subject = ''Task Status Updated'', recipients = [email admin],
                            body = message n, sender = mail_default_sender e\<rparr>])"
  using assms
  by (auto simp add: update_task_status_def insert_notification_def Let_def status_message_def
       send_task_notification_email_def)

text \<open>
  C1. When the assigned client asks for one of the three statuses and it differs
  from the task's status, the handler reports the update, the stored task has the new
  status and the time of the request as \<open>updated_at\<close>, exactly one notification is
  added, addressed to the task's creator, whose message names the old and the new
  status, and \<open>send_task_notification_email\<close> is called exactly once, for the
  creator's address. Nothing of this depends on \<open>mail_send\<close>: it holds whether the
  transport delivers or raises. The creator has a row in the user table, as the
  foreign key of the schema demands.
\<close>

theorem update_task_status_changed:
  assumes "tasks s tid = Some t"
    and "task.client_id t = uid current_user"
    and "form request ''status'' = Some new_status"
    and "new_status \<in> set [''pending'', ''in-progress'', ''completed'']"
    and "status t \<noteq> new_status"
    and "users s (creator_id t) = Some admin"
  shows "\<exists>s' n.
      update_task_status e current_user request tid s
        = (status_updated request tid new_status, s')
    \<and> tasks s' = (tasks s)(tid \<mapsto> t\<lparr>status := new_status,
                                      updated_at := clock s + elapsed e 0\<rparr>)
    \<and> notifications s' = notifications s @ [n]
    \<and> notification.user_id n = creator_id t
    \<and> notification.task_id n = Some tid
    \<and> message n = ''Task '' @ quoted (task.title t) @ '' status updated from '' @ status t
                     @ '' to '' @ new_status
    \<and> email_calls s' = email_calls s @ [(email admin, ''Task Status Updated'', message n)]
    \<and> outbox s' =
        (if email admin = [] then outbox s
         else outbox s @ [\<lparr>subject = ''Task Status Updated'', recipients = [email admin],
                            body = message n, sender = mail_default_sender e\<rparr>])"
proof -
  from status_change_effects [OF assms, of e] obtain s' n where run:
    "update_task_status e current_user request tid s
       = (status_updated request tid new_status, s')"
    "tasks s' = (tasks s)(tid \<mapsto> t\<lparr>status := new_status,
                                     updated_at := clock s + elapsed e 0\<rparr>)"
    "notifications s' = notifications s @ [n]"
    "notification.user_id n = creator_id t"
    "notification.task_id n = Some tid"
    "message n = status_message t (status t) new_status"
    "email_calls s' = email_calls s @ [(email admin, ''Task Status Updated'', message n)]"
    "outbox s' =
        (if email admin = [] then outbox s
         else outbox s @ [\<lparr>subject = ''Task Status Updated'', recipients = [email admin],
                            body = message n, sender = mail_default_sender e\<rparr>])"
    by blast
  from run(6) have "message n = ''Task '' @ quoted (task.title t) @ '' status updated from ''
      @ status t @ '' to '' @ new_status"
    by (simp add: status_message_def)
  with run show ?thesis by blast
qed

theorem update_task_status_changed_witness:
  "tasks office 1 = Some report
   \<and> task.client_id report = uid bob
   \<and> form (post [(''status'', ''in-progress'')]) ''status'' = Some ''in-progress''
   \<and> ''in-progress'' \<in> set [''pending'', ''in-progress'', ''completed'']
   \<and> status report \<noteq> ''in-progress''
   \<and> users office (creator_id report) = Some alice
   \<and> mail_send office_env = (\<lambda>m. False)
   \<and> map_option status (tasks (snd (update_task_status office_env bob
          (post [(''status'', ''in-progress'')]) 1 office)) 1) = Some ''in-progress''
   \<and> map_option updated_at (tasks (snd (update_task_status office_env bob
          (post [(''status'', ''in-progress'')]) 1 office)) 1) = Some 201
   \<and> length (notifications (snd (update_task_status office_env bob
          (post [(''status'', ''in-progress'')]) 1 office))) = 2
   \<and> email_calls (snd (update_task_status office_env bob
          (post [(''status'', ''in-progress'')]) 1 office)) =
        [(''alice@example.com'', ''Task Status Updated'',
          ''Task '' @ quoted ''Quarterly report''
            @ '' status updated from pending to in-progress'')]"
  using update_task_status_changed [of office 1 report bob "post [(''status'', ''in-progress'')]"
      "''in-progress''" alice office_env]
  by (simp add: office_def report_def alice_def bob_def carol_def post_def office_env_def
        update_task_status_def insert_notification_def Let_def status_message_def
        send_task_notification_email_def status_updated_def is_xhr_def quoted_def)

text \<open>
  C2. When the assigned client asks for the status the task already has, the
  handler changes nothing: the state after it is the state before it, so the task
  and its \<open>updated_at\<close> are as they were, no notification is added, and neither
  \<open>send_task_notification_email\<close> nor \<open>mail.send\<close> is called.
\<close>

theorem update_task_status_same:
  assumes "tasks s tid = Some t"
    and "task.client_id t = uid current_user"
    and "form request ''status'' = Some (status t)"
  shows "snd (update_task_status e current_user request tid s) = s"
  using assms by (simp add: update_task_status_def)

theorem update_task_status_same_witness:
  "tasks office 1 = Some report
   \<and> task.client_id report = uid bob
   \<and> form (post [(''status'', ''pending'')]) ''status'' = Some (status report)
   \<and> snd (update_task_status office_env bob (post [(''status'', ''pending'')]) 1 office)
       = office"
  using update_task_status_same [of office 1 report bob "post [(''status'', ''pending'')]"
      office_env]
  by (simp add: office_def report_def bob_def post_def)

text \<open>
  C3. A user who is not the task's assignee is turned away with the message that
  they are not authorized to update the task (as JSON for an AJAX request, as a
  flashed message and a redirect otherwise), and the state after the handler is the
  state before it: task, notifications and mail logs are untouched.
\<close>

theorem update_task_status_not_assignee:
  assumes "tasks s tid = Some t"
    and "task.client_id t \<noteq> uid current_user"
  shows "update_task_status e current_user request tid s =
           ((if is_xhr request
             then Reply [] (Jsonify [(''success'', Boolean False),
                    (''message'', Text ''You are not authorized to update this task'')])
             else Reply [(''You are not authorized to update this task'', ''danger'')]
                    (Redirect ''client_tasks'' [])), s)"
  using assms by (simp add: update_task_status_def)

theorem update_task_status_not_assignee_witness:
  "tasks office 1 = Some report
   \<and> task.client_id report \<noteq> uid carol
   \<and> update_task_status office_env carol (post [(''status'', ''completed'')]) 1 office =
       (Reply [(''You are not authorized to update this task'', ''danger'')]
          (Redirect ''client_tasks'' []), office)"
  using update_task_status_not_assignee [of office 1 report carol office_env
      "post [(''status'', ''completed'')]"]
  by (simp add: office_def report_def carol_def post_def is_xhr_def)

text \<open>
  C10. When the assignee asks for a status outside the three (or sends no status at
  all), the handler answers \<open>Invalid status value\<close> and the state after it is the
  state before it.
\<close>

theorem update_task_status_invalid:
  assumes "tasks s tid = Some t"
    and "task.client_id t = uid current_user"
    and "form request ''status''
           \<notin> set [Some ''pending'', Some ''in-progress'', Some ''completed'']"
  shows "update_task_status e current_user request tid s = (invalid_status request tid, s)"
  using assms by (auto simp add: update_task_status_def split: option.splits)

theorem update_task_status_invalid_witness:
  "tasks office 1 = Some report
   \<and> task.client_id report = uid bob
   \<and> form (post [(''status'', ''done'')]) ''status''
        \<notin> set [Some ''pending'', Some ''in-progress'', Some ''completed'']
   \<and> form (post []) ''status''
        \<notin> set [Some ''pending'', Some ''in-progress'', Some ''completed'']
   \<and> update_task_status office_env bob (post [(''status'', ''done'')]) 1 office =
       (Reply [(''Invalid status value'', ''danger'')]
          (Redirect ''client_task_detail'' [(''task_id'', 1)]), office)
   \<and> update_task_status office_env bob (post []) 1 office =
       (Reply [(''Invalid status value'', ''danger'')]
          (Redirect ''client_task_detail'' [(''task_id'', 1)]), office)"
  using update_task_status_invalid [of office 1 report bob "post [(''status'', ''done'')]"
      office_env]
    update_task_status_invalid [of office 1 report bob "post []" office_env]
  by (simp add: office_def report_def bob_def post_def invalid_status_def is_xhr_def)

section \<open>Task creation\<close>

lemma read_deadline_malformed:
  "read_deadline e x = Malformed \<longleftrightarrow> (\<exists>d. x = Some d \<and> d \<noteq> [] \<and> strptime e d = None)"
  by (auto simp add: read_deadline_def truthy_def split: option.splits)

lemma new_task_effects:
  assumes "new_task e current_user request s =
             (Reply [(''Task created successfully!'', ''success'')] (Redirect ''admin_tasks'' []), s')"
  shows "\<exists>title0 client_id0 cid client t n.
      form request ''title'' = Some title0 \<and> form request ''client_id'' = Some client_id0
    \<and> as_integer e client_id0 = Some cid \<and> users s cid = Some client
    \<and> tasks s' = (tasks s)(task_seq s \<mapsto> t)
    \<and> status t = ''pending'' \<and> client_id t = cid \<and> creator_id t = uid current_user
    \<and> task.created_at t = clock s + elapsed e 0
    \<and> updated_at t = task.created_at t + elapsed e 1
    \<and> notifications s' = notifications s @ [n]
    \<and> notification.title n = ''New Task Assigned''
    \<and> notification.user_id n = cid
    \<and> notification.task_id n = Some (task_seq s)
    \<and> message n = assigned_message title0
    \<and> email_calls s' = email_calls s @ [(email client, ''New Task Assigned'', assigned_message title0)]"
  using assms
  by (auto simp add: new_task_def insert_task_def insert_notification_def Let_def
       send_task_notification_email_def
       split: if_splits option.splits prod.splits sum.splits deadline_field.splits)

lemma new_task_outbox:
  assumes "new_task e current_user request s =
             (Reply [(''Task created successfully!'', ''success'')] (Redirect ''admin_tasks'' []), s')"
    and "form request ''title'' = Some title0"
    and "form request ''client_id'' = Some client_id0"
    and "as_integer e client_id0 = Some cid"
    and "users s cid = Some client"
  shows "outbox s' =
        (if email client = [] then outbox s
         else outbox s @ [\<lparr>subject = ''New Task Assigned'', recipients = [email client],
                            body = assigned_message title0,
                            sender = mail_default_sender e\<rparr>])"
  using assms
  by (auto simp add: new_task_def insert_task_def insert_notification_def Let_def
       send_task_notification_email_def
       split: if_splits option.splits prod.splits sum.splits deadline_field.splits)

lemma new_task_succeeds:
  assumes "http_method request = ''POST''"
    and "form request ''title'' = Some title0" and "title0 \<noteq> []"
    and "form request ''client_id'' = Some client_id0" and "client_id0 \<noteq> []"
    and "as_integer e client_id0 = Some cid"
    and "users s cid = Some client"
    and "users s (uid current_user) = Some creator"
    and "read_deadline e (form request ''deadline'') \<noteq> Malformed"
  shows "fst (new_task e current_user request s) =
           Reply [(''Task created successfully!'', ''success'')] (Redirect ''admin_tasks'' [])"
  using assms
  by (auto simp add: new_task_def insert_task_def insert_notification_def Let_def
       split: deadline_field.splits)

text \<open>
  C8. A POST with a title and a client id that the store reads as the id of a user,
  sent by a user with a row of their own, whose deadline is missing, empty or in the
  fixed format, creates the task: the handler reports success, the new row has
  status \<open>pending\<close> whatever the form holds (the handler never reads a status field),
  exactly one notification is added, addressed to the assignee, and
  \<open>send_task_notification_email\<close> is called exactly once, for the assignee's address:
  it hands exactly one message for that address to \<open>mail.send\<close> (none when the address
  is empty, which the utility refuses before the transport). Nothing of this depends
  on \<open>mail_send\<close>: it holds whether the transport delivers or raises.
\<close>

theorem new_task_created:
  assumes "http_method request = ''POST''"
    and "form request ''title'' = Some title0" and "title0 \<noteq> []"
    and "form request ''client_id'' = Some client_id0" and "client_id0 \<noteq> []"
    and "as_integer e client_id0 = Some cid"
    and "users s cid = Some client"
    and "users s (uid current_user) = Some creator"
    and "read_deadline e (form request ''deadline'') \<noteq> Malformed"
  shows "\<exists>s' t n.
      new_task e current_user request s =
        (Reply [(''Task created successfully!'', ''success'')] (Redirect ''admin_tasks'' []), s')
    \<and> tasks s' = (tasks s)(task_seq s \<mapsto> t)
    \<and> status t = ''pending'' \<and> client_id t = cid
    \<and> notifications s' = notifications s @ [n]
    \<and> notification.user_id n = cid
    \<and> notification.task_id n = Some (task_seq s)
    \<and> email_calls s' = email_calls s
         @ [(email client, ''New Task Assigned'', ''You have been assigned a new task: '' @ title0)]
    \<and> outbox s' =
        (if email client = [] then outbox s
         else outbox s @ [\<lparr>subject = ''New Task Assigned'', recipients = [email client],
                            body = ''You have been assigned a new task: '' @ title0,
                            sender = mail_default_sender e\<rparr>])"
proof -
  obtain s' where run: "new_task e current_user request s =
      (Reply [(''Task created successfully!'', ''success'')] (Redirect ''admin_tasks'' []), s')"
    using new_task_succeeds [OF assms] by (cases "new_task e current_user request s") simp
  from new_task_effects [OF run] assms(2,4,6,7) obtain t n where row:
    "tasks s' = (tasks s)(task_seq s \<mapsto> t)" "status t = ''pending''" "client_id t = cid"
    "notifications s' = notifications s @ [n]" "notification.user_id n = cid"
    "notification.task_id n = Some (task_seq s)"
    "email_calls s' = email_calls s
       @ [(email client, ''New Task Assigned'', ''You have been assigned a new task: '' @ title0)]"
    by (auto simp add: assigned_message_def)
  from new_task_outbox [OF run assms(2,4,6,7)] have sent:
    "outbox s' =
        (if email client = [] then outbox s
         else outbox s @ [\<lparr>subject = ''New Task Assigned'', recipients = [email client],
                            body = ''You have been assigned a new task: '' @ title0,
                            sender = mail_default_sender e\<rparr>])"
    by (simp add: assigned_message_def)
  from run row sent show ?thesis
    by (intro exI [of _ s'] exI [of _ t] exI [of _ n]) simp
qed

theorem new_task_created_witness:
  "http_method audit_form = ''POST''
   \<and> form audit_form ''title'' = Some ''Audit'' \<and> ''Audit'' \<noteq> []
   \<and> form audit_form ''client_id'' = Some ''2'' \<and> ''2'' \<noteq> []
   \<and> form audit_form ''status'' = Some ''completed''
   \<and> as_integer office_env ''2'' = Some 2
   \<and> users office 2 = Some bob
   \<and> users office (uid alice) = Some alice
   \<and> read_deadline office_env (form audit_form ''deadline'') \<noteq> Malformed
   \<and> map_option status (tasks (snd (new_task office_env alice audit_form office)) 2)
        = Some ''pending''
   \<and> length (notifications (snd (new_task office_env alice audit_form office))) = 2
   \<and> notification.user_id (last (notifications (snd (new_task office_env alice audit_form office)))) = 2
   \<and> email_calls (snd (new_task office_env alice audit_form office)) =
        [(''bob@example.com'', ''New Task Assigned'', ''You have been assigned a new task: Audit'')]
   \<and> mail_send office_env = (\<lambda>m. False)
   \<and> outbox (snd (new_task office_env alice audit_form office)) =
        [\<lparr>subject = ''New Task Assigned'', recipients = [''bob@example.com''],
          body = ''You have been assigned a new task: Audit'',
          sender = ''noreply@smarttask.com''\<rparr>]"
  using new_task_created [of audit_form "''Audit''" "''2''" office_env 2 office bob alice alice]
  by (simp add: audit_form_def post_def office_def office_env_def alice_def bob_def carol_def
        decimal_def read_deadline_def truthy_def new_task_def insert_task_def
        insert_notification_def send_task_notification_email_def Let_def assigned_message_def)

section \<open>Task edits\<close>

text \<open>
  C5. When the creator submits an edit whose deadline is not in the fixed format,
  the state after the handler is the state before it: no field of the task is
  stored, no notification is added and no mail is attempted. The handler answers
  with the format error and the form, unless the assignments it had made break the
  schema, in which case the flush before the form is rendered raises; it never
  reports success.
\<close>

theorem edit_task_malformed_deadline:
  assumes "tasks s tid = Some t"
    and "creator_id t = uid current_user"
    and "http_method request = ''POST''"
    and "form request ''deadline'' = Some d" and "d \<noteq> []"
    and "strptime e d = None"
  shows "snd (edit_task e current_user request tid s) = s
    \<and> fst (edit_task e current_user request tid s) =
        (case update_task e s t (form request ''title'') (form request ''description'')
                (form request ''client_id'') (form request ''service_type'')
                (form request ''priority'') (deadline t) of
           Inl err \<Rightarrow> Raised err
         | Inr row \<Rightarrow> Reply [(''Invalid deadline format'', ''danger'')]
                        (Render ''admin/task_form.html''))
    \<and> fst (edit_task e current_user request tid s) \<noteq>
        Reply [(''Task updated successfully!'', ''success'')] (Redirect ''admin_tasks'' [])"
  using assms
  by (auto simp add: edit_task_def read_deadline_def truthy_def split: sum.splits)

theorem edit_task_malformed_deadline_witness:
  "tasks office 1 = Some report
   \<and> creator_id report = uid alice
   \<and> http_method late_form = ''POST''
   \<and> form late_form ''deadline'' = Some ''tomorrow'' \<and> ''tomorrow'' \<noteq> []
   \<and> strptime office_env ''tomorrow'' = None
   \<and> edit_task office_env alice late_form 1 office =
        (Reply [(''Invalid deadline format'', ''danger'')] (Render ''admin/task_form.html''),
         office)"
  using edit_task_malformed_deadline [of office 1 report alice late_form "''tomorrow''" office_env]
  by (simp add: late_form_def post_def office_def office_env_def alice_def bob_def carol_def
        report_def decimal_def sample_strptime_def update_task_def prod_eq_iff)

section \<open>Tracked events\<close>

lemma edit_task_effects:
  assumes "edit_task e current_user request tid s =
             (Reply [(''Task updated successfully!'', ''success'')] (Redirect ''admin_tasks'' []), s')"
  shows "\<exists>t1 client n.
      tasks s' = (tasks s)(tid \<mapsto> t1)
    \<and> users s (client_id t1) = Some client
    \<and> notifications s' = notifications s @ [n]
    \<and> notification.title n = ''Task Updated''
    \<and> notification.user_id n = client_id t1
    \<and> notification.task_id n = Some tid
    \<and> message n = updated_message t1
    \<and> email_calls s' = email_calls s @ [(email client, ''Task Updated'', updated_message t1)]"
  using assms
  by (auto simp add: edit_task_def update_task_def insert_notification_def Let_def
       send_task_notification_email_def
       split: if_splits option.splits prod.splits sum.splits deadline_field.splits)

lemma add_comment_effects:
  assumes "add_comment e current_user request tid s =
             (Reply [(''Comment added successfully'', ''success'')] pg, s')"
  shows "\<exists>t c n.
      tasks s tid = Some t
    \<and> comments s' = comments s @ [c]
    \<and> notifications s' = notifications s @ [n]
    \<and> notification.user_id n = other_party current_user t
    \<and> notification.task_id n = Some tid
    \<and> email_calls s' = email_calls s \<and> outbox s' = outbox s"
  using assms
  by (auto simp add: add_comment_def insert_comment_def insert_notification_def Let_def
       split: if_splits option.splits prod.splits sum.splits)

lemma upload_attachment_effects:
  assumes "upload_attachment e current_user request tid s =
             (Reply [(''File uploaded successfully'', ''success'')] pg, s')"
  shows "\<exists>t a n.
      tasks s tid = Some t
    \<and> attachments s' = attachments s @ [a]
    \<and> notifications s' = notifications s @ [n]
    \<and> notification.user_id n = other_party current_user t
    \<and> notification.task_id n = Some tid
    \<and> email_calls s' = email_calls s \<and> outbox s' = outbox s"
  using assms
  by (auto simp add: upload_attachment_def insert_attachment_def insert_notification_def Let_def
       split: if_splits option.splits prod.splits sum.splits)

lemma status_change_reported:
  assumes "tasks s tid = Some t"
    and "status t \<noteq> new_status"
    and "form request ''status'' = Some new_status"
    and "update_task_status e current_user request tid s =
           (status_updated request tid new_status, s')"
  shows "\<exists>admin n.
      users s (creator_id t) = Some admin
    \<and> tasks s' = (tasks s)(tid \<mapsto> t\<lparr>status := new_status, updated_at := clock s + elapsed e 0\<rparr>)
    \<and> notifications s' = notifications s @ [n]
    \<and> notification.title n = ''Task Status Updated''
    \<and> notification.user_id n = creator_id t
    \<and> notification.task_id n = Some tid
    \<and> message n = status_message t (status t) new_status
    \<and> email_calls s' = email_calls s @ [(email admin, ''Task Status Updated'', message n)]"
  using assms
  by (auto simp add: update_task_status_def insert_notification_def Let_def status_message_def
       send_task_notification_email_def status_updated_def invalid_status_def
       split: if_splits option.splits prod.splits sum.splits)

lemma edit_task_outbox:
  assumes "edit_task e current_user request tid s =
             (Reply [(''Task updated successfully!'', ''success'')] (Redirect ''admin_tasks'' []), s')"
    and "tasks s' tid = Some t1"
    and "users s (client_id t1) = Some client"
  shows "outbox s' =
        (if email client = [] then outbox s
         else outbox s @ [\<lparr>subject = ''Task Updated'', recipients = [email client],
                            body = updated_message t1,
                            sender = mail_default_sender e\<rparr>])"
  using assms
  by (auto simp add: edit_task_def update_task_def insert_notification_def Let_def
       send_task_notification_email_def
       split: if_splits option.splits prod.splits sum.splits deadline_field.splits)

lemma status_change_outbox:
  assumes "tasks s tid = Some t"
    and "status t \<noteq> new_status"
    and "form request ''status'' = Some new_status"
    and "update_task_status e current_user request tid s =
           (status_updated request tid new_status, s')"
    and "users s (creator_id t) = Some admin"
  shows "outbox s' =
        (if email admin = [] then outbox s
         else outbox s @ [\<lparr>subject = ''Task Status Updated'', recipients = [email admin],
                            body = status_message t (status t) new_status,
                            sender = mail_default_sender e\<rparr>])"
  using assms
  by (auto simp add: update_task_status_def insert_notification_def Let_def status_message_def
       send_task_notification_email_def status_updated_def invalid_status_def
       split: if_splits option.splits prod.splits sum.splits)

text \<open>
  C4, as the claim states it, fails: Bob comments on his task, the comment is stored
  and Alice gets a notification, but \<open>send_task_notification_email\<close> is not called and
  nothing is handed to the transport.
\<close>

theorem comment_sends_no_email:
  "fst (add_comment office_env bob (post [(''content'', ''Half done'')]) 1 office) =
     Reply [(''Comment added successfully'', ''success'')]
       (Redirect ''client_task_detail'' [(''task_id'', 1)])
   \<and> map content (comments (snd (add_comment office_env bob
        (post [(''content'', ''Half done'')]) 1 office))) = [''Half done'']
   \<and> map notification.user_id (notifications (snd (add_comment office_env bob
        (post [(''content'', ''Half done'')]) 1 office))) = [2, 1]
   \<and> email_calls office = []
   \<and> email_calls (snd (add_comment office_env bob
        (post [(''content'', ''Half done'')]) 1 office)) = []
   \<and> outbox (snd (add_comment office_env bob
        (post [(''content'', ''Half done'')]) 1 office)) = []"
  by (simp add: add_comment_def insert_comment_def insert_notification_def Let_def
        office_def office_env_def report_def alice_def bob_def carol_def post_def
        other_party_def back_to_task_def)

text \<open>
  C4, amended. A created task, an edited task and a changed status each add exactly
  one notification, addressed to the counterparty (the assignee for the first two,
  the creator for the third), and make exactly one call of
  \<open>send_task_notification_email\<close>, for that user's address, with the notification's
  title and message: it hands exactly one such message to \<open>mail.send\<close> (none when the
  address is empty, which the utility refuses before the transport), whether the
  transport then delivers or raises. An added comment and an added attachment each
  add exactly one notification, addressed to the other party of the task, and
  attempt no mail: no call of the utility, nothing handed to the transport.
\<close>

theorem tracked_events_notify:
  "(new_task e admin1 creating s =
      (Reply [(''Task created successfully!'', ''success'')] (Redirect ''admin_tasks'' []), s1)
    \<longrightarrow> (\<exists>n client. notifications s1 = notifications s @ [n]
          \<and> map_option client_id (tasks s1 (task_seq s)) = Some (notification.user_id n)
          \<and> users s (notification.user_id n) = Some client
          \<and> email_calls s1 = email_calls s
               @ [(email client, notification.title n, message n)]
          \<and> outbox s1 =
              (if email client = [] then outbox s
               else outbox s @ [\<lparr>subject = notification.title n,
                                  recipients = [email client], body = message n,
                                  sender = mail_default_sender e\<rparr>])))
   \<and> (edit_task e admin2 editing tid2 s =
      (Reply [(''Task updated successfully!'', ''success'')] (Redirect ''admin_tasks'' []), s2)
    \<longrightarrow> (\<exists>n client. notifications s2 = notifications s @ [n]
          \<and> map_option client_id (tasks s2 tid2) = Some (notification.user_id n)
          \<and> users s (notification.user_id n) = Some client
          \<and> email_calls s2 = email_calls s
               @ [(email client, notification.title n, message n)]
          \<and> outbox s2 =
              (if email client = [] then outbox s
               else outbox s @ [\<lparr>subject = notification.title n,
                                  recipients = [email client], body = message n,
                                  sender = mail_default_sender e\<rparr>])))
   \<and> (tasks s tid3 = Some t3 \<and> status t3 \<noteq> new_status
       \<and> form moving ''status'' = Some new_status
       \<and> update_task_status e client3 moving tid3 s
            = (status_updated moving tid3 new_status, s3)
    \<longrightarrow> (\<exists>n admin. notifications s3 = notifications s @ [n]
          \<and> notification.user_id n = creator_id t3
          \<and> users s (notification.user_id n) = Some admin
          \<and> email_calls s3 = email_calls s
               @ [(email admin, notification.title n, message n)]
          \<and> outbox s3 =
              (if email admin = [] then outbox s
               else outbox s @ [\<lparr>subject = notification.title n,
                                  recipients = [email admin], body = message n,
                                  sender = mail_default_sender e\<rparr>])))
   \<and> (add_comment e user4 commenting tid4 s =
      (Reply [(''Comment added successfully'', ''success'')] page4, s4)
    \<longrightarrow> (\<exists>n t. tasks s tid4 = Some t
          \<and> notifications s4 = notifications s @ [n]
          \<and> notification.user_id n = other_party user4 t
          \<and> email_calls s4 = email_calls s \<and> outbox s4 = outbox s))
   \<and> (upload_attachment e user5 uploading tid5 s =
      (Reply [(''File uploaded successfully'', ''success'')] page5, s5)
    \<longrightarrow> (\<exists>n t. tasks s tid5 = Some t
          \<and> notifications s5 = notifications s @ [n]
          \<and> notification.user_id n = other_party user5 t
          \<and> email_calls s5 = email_calls s \<and> outbox s5 = outbox s))"
proof (intro conjI impI)
  assume run: "new_task e admin1 creating s =
      (Reply [(''Task created successfully!'', ''success'')] (Redirect ''admin_tasks'' []), s1)"
  from new_task_effects [OF run] obtain title0 client_id0 cid client t n where got:
    "form creating ''title'' = Some title0" "form creating ''client_id'' = Some client_id0"
    "as_integer e client_id0 = Some cid" "users s cid = Some client"
    "tasks s1 = (tasks s)(task_seq s \<mapsto> t)" "client_id t = cid"
    "notifications s1 = notifications s @ [n]"
    "notification.title n = ''New Task Assigned''" "notification.user_id n = cid"
    "message n = assigned_message title0"
    "email_calls s1 = email_calls s
       @ [(email client, ''New Task Assigned'', assigned_message title0)]"
    by blast
  from new_task_outbox [OF run got(1-4)] got
  show "\<exists>n client. notifications s1 = notifications s @ [n]
          \<and> map_option client_id (tasks s1 (task_seq s)) = Some (notification.user_id n)
          \<and> users s (notification.user_id n) = Some client
          \<and> email_calls s1 = email_calls s
               @ [(email client, notification.title n, message n)]
          \<and> outbox s1 =
              (if email client = [] then outbox s
               else outbox s @ [\<lparr>subject = notification.title n,
                                  recipients = [email client], body = message n,
                                  sender = mail_default_sender e\<rparr>])"
    by (intro exI [of _ n] exI [of _ client]) simp
next
  assume run: "edit_task e admin2 editing tid2 s =
      (Reply [(''Task updated successfully!'', ''success'')] (Redirect ''admin_tasks'' []), s2)"
  from edit_task_effects [OF run] obtain t1 client n where got:
    "tasks s2 = (tasks s)(tid2 \<mapsto> t1)" "users s (client_id t1) = Some client"
    "notifications s2 = notifications s @ [n]"
    "notification.title n = ''Task Updated''" "notification.user_id n = client_id t1"
    "message n = updated_message t1"
    "email_calls s2 = email_calls s @ [(email client, ''Task Updated'', updated_message t1)]"
    by blast
  from got(1) have row: "tasks s2 tid2 = Some t1" by simp
  from edit_task_outbox [OF run row got(2)] got row
  show "\<exists>n client. notifications s2 = notifications s @ [n]
          \<and> map_option client_id (tasks s2 tid2) = Some (notification.user_id n)
          \<and> users s (notification.user_id n) = Some client
          \<and> email_calls s2 = email_calls s
               @ [(email client, notification.title n, message n)]
          \<and> outbox s2 =
              (if email client = [] then outbox s
               else outbox s @ [\<lparr>subject = notification.title n,
                                  recipients = [email client], body = message n,
                                  sender = mail_default_sender e\<rparr>])"
    by (intro exI [of _ n] exI [of _ client]) simp
next
  assume "tasks s tid3 = Some t3 \<and> status t3 \<noteq> new_status
       \<and> form moving ''status'' = Some new_status
       \<and> update_task_status e client3 moving tid3 s
            = (status_updated moving tid3 new_status, s3)"
  then have h: "tasks s tid3 = Some t3" "status t3 \<noteq> new_status"
      "form moving ''status'' = Some new_status"
      "update_task_status e client3 moving tid3 s = (status_updated moving tid3 new_status, s3)"
    by simp_all
  from status_change_reported [OF h] obtain admin n where got:
    "users s (creator_id t3) = Some admin"
    "notifications s3 = notifications s @ [n]"
    "notification.title n = ''Task Status Updated''" "notification.user_id n = creator_id t3"
    "message n = status_message t3 (status t3) new_status"
    "email_calls s3 = email_calls s @ [(email admin, ''Task Status Updated'', message n)]"
    by blast
  from status_change_outbox [OF h got(1)] got
  show "\<exists>n admin. notifications s3 = notifications s @ [n]
          \<and> notification.user_id n = creator_id t3
          \<and> users s (notification.user_id n) = Some admin
          \<and> email_calls s3 = email_calls s
               @ [(email admin, notification.title n, message n)]
          \<and> outbox s3 =
              (if email admin = [] then outbox s
               else outbox s @ [\<lparr>subject = notification.title n,
                                  recipients = [email admin], body = message n,
                                  sender = mail_default_sender e\<rparr>])"
    by (intro exI [of _ n] exI [of _ admin]) simp
next
  assume "add_comment e user4 commenting tid4 s =
      (Reply [(''Comment added successfully'', ''success'')] page4, s4)"
  from add_comment_effects [OF this]
  show "\<exists>n t. tasks s tid4 = Some t
          \<and> notifications s4 = notifications s @ [n]
          \<and> notification.user_id n = other_party user4 t
          \<and> email_calls s4 = email_calls s \<and> outbox s4 = outbox s"
    by auto
next
  assume "upload_attachment e user5 uploading tid5 s =
      (Reply [(''File uploaded successfully'', ''success'')] page5, s5)"
  from upload_attachment_effects [OF this]
  show "\<exists>n t. tasks s tid5 = Some t
          \<and> notifications s5 = notifications s @ [n]
          \<and> notification.user_id n = other_party user5 t
          \<and> email_calls s5 = email_calls s \<and> outbox s5 = outbox s"
    by auto
qed

lemma office_runs:
  "new_task office_env alice audit_form office =
     (Reply [(''Task created successfully!'', ''success'')] (Redirect ''admin_tasks'' []),
      snd (new_task office_env alice audit_form office))"
  "edit_task office_env alice dated_form 1 office =
     (Reply [(''Task updated successfully!'', ''success'')] (Redirect ''admin_tasks'' []),
      snd (edit_task office_env alice dated_form 1 office))"
  "update_task_status office_env bob (post [(''status'', ''completed'')]) 1 office =
     (status_updated (post [(''status'', ''completed'')]) 1 ''completed'',
      snd (update_task_status office_env bob (post [(''status'', ''completed'')]) 1 office))"
  "add_comment office_env bob (post [(''content'', ''Half done'')]) 1 office =
     (Reply [(''Comment added successfully'', ''success'')]
        (Redirect ''client_task_detail'' [(''task_id'', 1)]),
      snd (add_comment office_env bob (post [(''content'', ''Half done'')]) 1 office))"
  "upload_attachment office_env bob notes_file 1 office =
     (Reply [(''File uploaded successfully'', ''success'')]
        (Redirect ''client_task_detail'' [(''task_id'', 1)]),
      snd (upload_attachment office_env bob notes_file 1 office))"
  by (simp_all add: prod_eq_iff new_task_def edit_task_def update_task_status_def add_comment_def
        upload_attachment_def insert_task_def update_task_def insert_notification_def
        insert_comment_def insert_attachment_def Let_def read_deadline_def truthy_def
        audit_form_def dated_form_def notes_file_def post_def post_file_def
        office_def office_env_def report_def alice_def bob_def carol_def decimal_def
        sample_strptime_def status_updated_def is_xhr_def other_party_def back_to_task_def)

lemma office_mail:
  "outbox office = []"
  "outbox (snd (new_task office_env alice audit_form office)) =
     [\<lparr>subject = ''New Task Assigned'', recipients = [''bob@example.com''],
       body = ''You have been assigned a new task: Audit'',
       sender = ''noreply@smarttask.com''\<rparr>]"
  "outbox (snd (edit_task office_env alice dated_form 1 office)) =
     [\<lparr>subject = ''Task Updated'', recipients = [''carol@example.com''],
       body = ''A task assigned to you has been updated: Annual report'',
       sender = ''noreply@smarttask.com''\<rparr>]"
  "outbox (snd (update_task_status office_env bob (post [(''status'', ''completed'')]) 1 office)) =
     [\<lparr>subject = ''Task Status Updated'', recipients = [''alice@example.com''],
       body = ''Task '' @ quoted ''Quarterly report''
                @ '' status updated from pending to completed'',
       sender = ''noreply@smarttask.com''\<rparr>]"
  "outbox (snd (add_comment office_env bob (post [(''content'', ''Half done'')]) 1 office)) = []"
  "outbox (snd (upload_attachment office_env bob notes_file 1 office)) = []"
  by (simp_all add: new_task_def edit_task_def update_task_status_def add_comment_def
        upload_attachment_def insert_task_def update_task_def insert_notification_def
        insert_comment_def insert_attachment_def Let_def read_deadline_def truthy_def
        send_task_notification_email_def assigned_message_def updated_message_def
        status_message_def quoted_def
        audit_form_def dated_form_def notes_file_def post_def post_file_def
        office_def office_env_def report_def alice_def bob_def carol_def decimal_def
        sample_strptime_def status_updated_def is_xhr_def other_party_def back_to_task_def)

theorem tracked_events_notify_witness:
  "fst (new_task office_env alice audit_form office) =
     Reply [(''Task created successfully!'', ''success'')] (Redirect ''admin_tasks'' [])
   \<and> fst (edit_task office_env alice dated_form 1 office) =
     Reply [(''Task updated successfully!'', ''success'')] (Redirect ''admin_tasks'' [])
   \<and> tasks office 1 = Some report \<and> status report \<noteq> ''completed''
   \<and> form (post [(''status'', ''completed'')]) ''status'' = Some ''completed''
   \<and> fst (update_task_status office_env bob (post [(''status'', ''completed'')]) 1 office) =
     status_updated (post [(''status'', ''completed'')]) 1 ''completed''
   \<and> fst (add_comment office_env bob (post [(''content'', ''Half done'')]) 1 office) =
     Reply [(''Comment added successfully'', ''success'')]
       (Redirect ''client_task_detail'' [(''task_id'', 1)])
   \<and> fst (upload_attachment office_env bob notes_file 1 office) =
     Reply [(''File uploaded successfully'', ''success'')]
       (Redirect ''client_task_detail'' [(''task_id'', 1)])
   \<and> mail_send office_env = (\<lambda>m. False)
   \<and> (\<exists>n client. notifications (snd (new_task office_env alice audit_form office))
            = notifications office @ [n]
          \<and> users office (notification.user_id n) = Some client
          \<and> email_calls (snd (new_task office_env alice audit_form office))
            = email_calls office @ [(email client, notification.title n, message n)]
          \<and> outbox (snd (new_task office_env alice audit_form office)) =
              (if email client = [] then outbox office
               else outbox office @ [\<lparr>subject = notification.title n,
                      recipients = [email client], body = message n,
                      sender = mail_default_sender office_env\<rparr>]))
   \<and> outbox (snd (new_task office_env alice audit_form office)) =
       [\<lparr>subject = ''New Task Assigned'', recipients = [''bob@example.com''],
         body = ''You have been assigned a new task: Audit'',
         sender = ''noreply@smarttask.com''\<rparr>]
   \<and> (\<exists>n client. notifications (snd (edit_task office_env alice dated_form 1 office))
            = notifications office @ [n]
          \<and> users office (notification.user_id n) = Some client
          \<and> email_calls (snd (edit_task office_env alice dated_form 1 office))
            = email_calls office @ [(email client, notification.title n, message n)]
          \<and> outbox (snd (edit_task office_env alice dated_form 1 office)) =
              (if email client = [] then outbox office
               else outbox office @ [\<lparr>subject = notification.title n,
                      recipients = [email client], body = message n,
                      sender = mail_default_sender office_env\<rparr>]))
   \<and> outbox (snd (edit_task office_env alice dated_form 1 office)) =
       [\<lparr>subject = ''Task Updated'', recipients = [''carol@example.com''],
         body = ''A task assigned to you has been updated: Annual report'',
         sender = ''noreply@smarttask.com''\<rparr>]
   \<and> (\<exists>n admin. notifications (snd (update_task_status office_env bob
              (post [(''status'', ''completed'')]) 1 office)) = notifications office @ [n]
          \<and> users office (notification.user_id n) = Some admin
          \<and> email_calls (snd (update_task_status office_env bob
              (post [(''status'', ''completed'')]) 1 office))
            = email_calls office @ [(email admin, notification.title n, message n)]
          \<and> outbox (snd (update_task_status office_env bob
              (post [(''status'', ''completed'')]) 1 office)) =
              (if email admin = [] then outbox office
               else outbox office @ [\<lparr>subject = notification.title n,
                      recipients = [email admin], body = message n,
                      sender = mail_default_sender office_env\<rparr>]))
   \<and> outbox (snd (update_task_status office_env bob
          (post [(''status'', ''completed'')]) 1 office)) =
       [\<lparr>subject = ''Task Status Updated'', recipients = [''alice@example.com''],
         body = ''Task '' @ quoted ''Quarterly report''
                  @ '' status updated from pending to completed'',
         sender = ''noreply@smarttask.com''\<rparr>]
   \<and> (\<exists>n. notifications (snd (add_comment office_env bob
              (post [(''content'', ''Half done'')]) 1 office)) = notifications office @ [n]
          \<and> email_calls (snd (add_comment office_env bob
              (post [(''content'', ''Half done'')]) 1 office)) = email_calls office
          \<and> outbox (snd (add_comment office_env bob
              (post [(''content'', ''Half done'')]) 1 office)) = outbox office)
   \<and> (\<exists>n. notifications (snd (upload_attachment office_env bob notes_file 1 office))
            = notifications office @ [n]
          \<and> email_calls (snd (upload_attachment office_env bob notes_file 1 office))
            = email_calls office
          \<and> outbox (snd (upload_attachment office_env bob notes_file 1 office))
            = outbox office)"
proof -
  have here: "tasks office 1 = Some report" "status report \<noteq> ''completed''"
    "form (post [(''status'', ''completed'')]) ''status'' = Some ''completed''"
    "mail_send office_env = (\<lambda>m. False)"
    by (simp_all add: office_def report_def post_def office_env_def)
  note all = tracked_events_notify [of office_env alice audit_form office
      "snd (new_task office_env alice audit_form office)"
      alice dated_form 1 "snd (edit_task office_env alice dated_form 1 office)"
      1 report "''completed''" "post [(''status'', ''completed'')]" bob
      "snd (update_task_status office_env bob (post [(''status'', ''completed'')]) 1 office)"
      bob "post [(''content'', ''Half done'')]" 1
      "Redirect ''client_task_detail'' [(''task_id'', 1)]"
      "snd (add_comment office_env bob (post [(''content'', ''Half done'')]) 1 office)"
      bob notes_file 1 "Redirect ''client_task_detail'' [(''task_id'', 1)]"
      "snd (upload_attachment office_env bob notes_file 1 office)"]
  have runs:
    "fst (new_task office_env alice audit_form office) =
       Reply [(''Task created successfully!'', ''success'')] (Redirect ''admin_tasks'' [])"
    "fst (edit_task office_env alice dated_form 1 office) =
       Reply [(''Task updated successfully!'', ''success'')] (Redirect ''admin_tasks'' [])"
    "fst (update_task_status office_env bob (post [(''status'', ''completed'')]) 1 office) =
       status_updated (post [(''status'', ''completed'')]) 1 ''completed''"
    "fst (add_comment office_env bob (post [(''content'', ''Half done'')]) 1 office) =
       Reply [(''Comment added successfully'', ''success'')]
         (Redirect ''client_task_detail'' [(''task_id'', 1)])"
    "fst (upload_attachment office_env bob notes_file 1 office) =
       Reply [(''File uploaded successfully'', ''success'')]
         (Redirect ''client_task_detail'' [(''task_id'', 1)])"
    using office_runs by (simp_all add: prod_eq_iff)
  from all office_runs here have concl:
    "\<exists>n client. notifications (snd (new_task office_env alice audit_form office))
            = notifications office @ [n]
          \<and> users office (notification.user_id n) = Some client
          \<and> email_calls (snd (new_task office_env alice audit_form office))
            = email_calls office @ [(email client, notification.title n, message n)]
          \<and> outbox (snd (new_task office_env alice audit_form office)) =
              (if email client = [] then outbox office
               else outbox office @ [\<lparr>subject = notification.title n,
                      recipients = [email client], body = message n,
                      sender = mail_default_sender office_env\<rparr>])"
    "\<exists>n client. notifications (snd (edit_task office_env alice dated_form 1 office))
            = notifications office @ [n]
          \<and> users office (notification.user_id n) = Some client
          \<and> email_calls (snd (edit_task office_env alice dated_form 1 office))
            = email_calls office @ [(email client, notification.title n, message n)]
          \<and> outbox (snd (edit_task office_env alice dated_form 1 office)) =
              (if email client = [] then outbox office
               else outbox office @ [\<lparr>subject = notification.title n,
                      recipients = [email client], body = message n,
                      sender = mail_default_sender office_env\<rparr>])"
    "\<exists>n admin. notifications (snd (update_task_status office_env bob
              (post [(''status'', ''completed'')]) 1 office)) = notifications office @ [n]
          \<and> users office (notification.user_id n) = Some admin
          \<and> email_calls (snd (update_task_status office_env bob
              (post [(''status'', ''completed'')]) 1 office))
            = email_calls office @ [(email admin, notification.title n, message n)]
          \<and> outbox (snd (update_task_status office_env bob
              (post [(''status'', ''completed'')]) 1 office)) =
              (if email admin = [] then outbox office
               else outbox office @ [\<lparr>subject = notification.title n,
                      recipients = [email admin], body = message n,
                      sender = mail_default_sender office_env\<rparr>])"
    "\<exists>n. notifications (snd (add_comment office_env bob
              (post [(''content'', ''Half done'')]) 1 office)) = notifications office @ [n]
          \<and> email_calls (snd (add_comment office_env bob
              (post [(''content'', ''Half done'')]) 1 office)) = email_calls office
          \<and> outbox (snd (add_comment office_env bob
              (post [(''content'', ''Half done'')]) 1 office)) = outbox office"
    "\<exists>n. notifications (snd (upload_attachment office_env bob notes_file 1 office))
            = notifications office @ [n]
          \<and> email_calls (snd (upload_attachment office_env bob notes_file 1 office))
            = email_calls office
          \<and> outbox (snd (upload_attachment office_env bob notes_file 1 office))
            = outbox office"
    by blast+
  from runs here concl office_mail(2-4) show ?thesis
    by (intro conjI) assumption+
qed

section \<open>Timestamps\<close>

lemma touched_timestamps:
  assumes "touched s s'" and "timestamps_ok s"
  shows "timestamps_ok s'"
  unfolding timestamps_ok_def
proof (intro allI impI)
  fix tid t'
  assume row: "tasks s' tid = Some t'"
  from assms(1) have mono: "clock s \<le> clock s'"
    by (simp add: touched_def)
  from assms(1) row consider
      (kept) "tasks s tid = Some t'"
    | (written) "clock s \<le> updated_at t'" "updated_at t' \<le> clock s'"
        "task.created_at t' \<le> updated_at t'"
    | (changed) t where "clock s \<le> updated_at t'" "updated_at t' \<le> clock s'"
        "tasks s tid = Some t" "task.created_at t' = task.created_at t"
    unfolding touched_def by blast
  then show "task.created_at t' \<le> updated_at t' \<and> updated_at t' \<le> clock s'"
  proof cases
    case kept
    with assms(2) have "task.created_at t' \<le> updated_at t'" "updated_at t' \<le> clock s"
      by (simp_all add: timestamps_ok_def)
    with mono show ?thesis by simp
  next
    case written
    then show ?thesis by simp
  next
    case changed
    from assms(2) changed(3) have "task.created_at t \<le> updated_at t" "updated_at t \<le> clock s"
      by (simp_all add: timestamps_ok_def)
    with changed show ?thesis by simp
  qed
qed

lemma new_task_touched: "touched s (snd (new_task e current_user request s))"
  unfolding touched_def
  by (auto simp add: new_task_def insert_task_def insert_notification_def Let_def
       send_task_notification_email_def
       split: if_splits option.splits prod.splits sum.splits deadline_field.splits)

lemma edit_task_touched: "touched s (snd (edit_task e current_user request tid s))"
  unfolding touched_def
  by (auto simp add: edit_task_def update_task_def insert_notification_def Let_def
       send_task_notification_email_def
       split: if_splits option.splits prod.splits sum.splits deadline_field.splits)

lemma delete_task_touched: "touched s (snd (delete_task current_user tid s))"
  unfolding touched_def
  by (auto simp add: delete_task_def split: if_splits option.splits)

lemma update_task_status_touched:
  "touched s (snd (update_task_status e current_user request tid s))"
  unfolding touched_def
  by (auto simp add: update_task_status_def insert_notification_def Let_def
       send_task_notification_email_def
       split: if_splits option.splits prod.splits sum.splits)

lemma add_comment_touched: "touched s (snd (add_comment e current_user request tid s))"
  unfolding touched_def
  by (auto simp add: add_comment_def insert_comment_def insert_notification_def Let_def
       split: if_splits option.splits prod.splits sum.splits)

lemma upload_attachment_touched:
  "touched s (snd (upload_attachment e current_user request tid s))"
  unfolding touched_def
  by (auto simp add: upload_attachment_def insert_attachment_def insert_notification_def Let_def
       split: if_splits option.splits prod.splits sum.splits)

lemma mark_notification_read_touched:
  "touched s (snd (mark_notification_read current_user nid s))"
  unfolding touched_def
  by (auto simp add: mark_notification_read_def Let_def)

lemma step_touched: "step s s' \<Longrightarrow> touched s s'"
proof (induction rule: step.induct)
  case (registered s us)
  then show ?case by (simp add: touched_def)
qed (simp_all add: new_task_touched edit_task_touched delete_task_touched
       update_task_status_touched add_comment_touched upload_attachment_touched
       mark_notification_read_touched)

lemma reachable_timestamps: "reachable s \<Longrightarrow> timestamps_ok s"
proof (induction rule: reachable.induct)
  case (fresh s)
  then show ?case by (simp add: timestamps_ok_def)
next
  case (later s s')
  then show ?case using touched_timestamps step_touched by blast
qed

text \<open>
  C9, as the claim states it, fails: \<open>created_at\<close> and \<open>updated_at\<close> each have their
  own column default, so a new row takes two readings of the clock. Alice creates a
  task in the office at time 200, where the clock ticks between readings: the row
  is created at 201 and updated at 203.
\<close>

theorem creation_timestamps_differ:
  "fst (new_task office_env alice audit_form office) =
     Reply [(''Task created successfully!'', ''success'')] (Redirect ''admin_tasks'' [])
   \<and> map_option task.created_at (tasks (snd (new_task office_env alice audit_form office)) 2)
       = Some 201
   \<and> map_option updated_at (tasks (snd (new_task office_env alice audit_form office)) 2)
       = Some 203"
  by (simp add: new_task_def insert_task_def insert_notification_def Let_def
        send_task_notification_email_def
        read_deadline_def truthy_def audit_form_def post_def office_def office_env_def
        alice_def bob_def carol_def decimal_def)

text \<open>
  C9, amended. With a wall clock that never runs backwards, every task of every
  reachable state has \<open>updated_at\<close> no earlier than \<open>created_at\<close>; and a created task
  takes \<open>created_at\<close> from one reading of the clock and \<open>updated_at\<close> from the next
  one, so the two are equal only when no time passes between the readings.
\<close>

theorem timestamps_ordered:
  "(reachable s \<longrightarrow>
      (\<forall>tid t. tasks s tid = Some t \<longrightarrow> task.created_at t \<le> updated_at t))
   \<and> (new_task e current_user request s0 =
        (Reply [(''Task created successfully!'', ''success'')] (Redirect ''admin_tasks'' []), s1)
      \<longrightarrow> (\<exists>t. tasks s1 (task_seq s0) = Some t
             \<and> task.created_at t = clock s0 + elapsed e 0
             \<and> updated_at t = task.created_at t + elapsed e 1))"
proof (intro conjI impI allI)
  fix tid t
  assume "reachable s" and "tasks s tid = Some t"
  then show "task.created_at t \<le> updated_at t"
    using reachable_timestamps [of s] by (simp add: timestamps_ok_def)
next
  assume "new_task e current_user request s0 =
        (Reply [(''Task created successfully!'', ''success'')] (Redirect ''admin_tasks'' []), s1)"
  from new_task_effects [OF this]
  show "\<exists>t. tasks s1 (task_seq s0) = Some t
             \<and> task.created_at t = clock s0 + elapsed e 0
             \<and> updated_at t = task.created_at t + elapsed e 1"
    by auto
qed

lemma startup_run:
  "new_task office_env alice audit_form startup =
     (Reply [(''Task created successfully!'', ''success'')] (Redirect ''admin_tasks'' []),
      snd (new_task office_env alice audit_form startup))"
  "map_option task.created_at (tasks (snd (new_task office_env alice audit_form startup)) 1)
     = Some 51"
  "map_option updated_at (tasks (snd (new_task office_env alice audit_form startup)) 1)
     = Some 53"
  "task_seq startup = 1"
  by (simp_all add: prod_eq_iff new_task_def insert_task_def insert_notification_def Let_def
        send_task_notification_email_def
        read_deadline_def truthy_def audit_form_def post_def startup_def office_env_def
        alice_def bob_def carol_def decimal_def)

theorem timestamps_ordered_witness:
  "reachable (snd (new_task office_env alice audit_form startup))
   \<and> fst (new_task office_env alice audit_form startup) =
       Reply [(''Task created successfully!'', ''success'')] (Redirect ''admin_tasks'' [])
   \<and> map_option task.created_at (tasks (snd (new_task office_env alice audit_form startup)) 1)
       = Some 51
   \<and> map_option updated_at (tasks (snd (new_task office_env alice audit_form startup)) 1)
       = Some 53
   \<and> (\<exists>t. tasks (snd (new_task office_env alice audit_form startup)) 1 = Some t
          \<and> task.created_at t \<le> updated_at t
          \<and> task.created_at t = clock startup + elapsed office_env 0
          \<and> updated_at t = task.created_at t + elapsed office_env 1)"
proof -
  have "reachable startup"
    by (rule reachable.fresh) (simp add: startup_def)
  then have there: "reachable (snd (new_task office_env alice audit_form startup))"
    by (rule reachable.later) (rule step.created)
  from there startup_run
    timestamps_ordered [of "snd (new_task office_env alice audit_form startup)"
      office_env alice audit_form startup "snd (new_task office_env alice audit_form startup)"]
  show ?thesis
    by (auto simp add: prod_eq_iff)
qed

section \<open>The AI drafting adapter\<close>

text \<open>
  C6. \<open>analyze_task_priority\<close> is a total function into texts: every exception of
  its \<open>try\<close> block is a branch that returns \<open>medium\<close>, so nothing reaches the caller.
  Its result is always one of \<open>low\<close>, \<open>medium\<close>, \<open>high\<close>; it is \<open>medium\<close> when the
  backend raises, answers with no choice or with no content, or with a content that
  stripped and lowered is none of the three, and it is that token otherwise.
\<close>

theorem analyze_task_priority_total:
  "analyze_task_priority create strip lower task_description deadline_days
      \<in> set [''low'', ''medium'', ''high'']
   \<and> (\<forall>ex. create (priority_request task_description deadline_days) = Inl ex
         \<longrightarrow> analyze_task_priority create strip lower task_description deadline_days
               = ''medium'')
   \<and> (create (priority_request task_description deadline_days) = Inr []
         \<longrightarrow> analyze_task_priority create strip lower task_description deadline_days
               = ''medium'')
   \<and> (\<forall>rest. create (priority_request task_description deadline_days) = Inr (None # rest)
         \<longrightarrow> analyze_task_priority create strip lower task_description deadline_days
               = ''medium'')
   \<and> (\<forall>content0 rest.
         create (priority_request task_description deadline_days) = Inr (Some content0 # rest)
         \<longrightarrow> analyze_task_priority create strip lower task_description deadline_days
               = (if lower (strip content0) \<in> set [''low'', ''medium'', ''high'']
                  then lower (strip content0) else ''medium''))"
  by (auto simp add: analyze_task_priority_def first_content_def Let_def
       split: sum.splits list.splits option.splits)

lemma priority_runs:
  "analyze_task_priority unreachable ascii_strip ascii_lower ''Fix the server'' (Some 2)
     = ''medium''"
  "analyze_task_priority (answers []) ascii_strip ascii_lower ''Fix the server'' None
     = ''medium''"
  "analyze_task_priority (answers [None]) ascii_strip ascii_lower ''Fix the server'' None
     = ''medium''"
  "ascii_lower (ascii_strip '' High '') = ''high''"
  "analyze_task_priority (answers [Some '' High '']) ascii_strip ascii_lower
     ''Fix the server'' None = ''high''"
  "analyze_task_priority (answers [Some ''It is urgent.'']) ascii_strip ascii_lower
     ''Fix the server'' None = ''medium''"
  by code_simp+

theorem analyze_task_priority_total_witness:
  "unreachable (priority_request ''Fix the server'' (Some 2))
      = Inl (BackendError ''Connection error.'')
   \<and> analyze_task_priority unreachable ascii_strip ascii_lower ''Fix the server'' (Some 2)
       = ''medium''
   \<and> answers [] (priority_request ''Fix the server'' None) = Inr []
   \<and> analyze_task_priority (answers []) ascii_strip ascii_lower ''Fix the server'' None
       = ''medium''
   \<and> answers [None] (priority_request ''Fix the server'' None) = Inr [None]
   \<and> analyze_task_priority (answers [None]) ascii_strip ascii_lower ''Fix the server'' None
       = ''medium''
   \<and> answers [Some '' High ''] (priority_request ''Fix the server'' None)
       = Inr [Some '' High '']
   \<and> ascii_lower (ascii_strip '' High '') = ''high''
   \<and> analyze_task_priority (answers [Some '' High '']) ascii_strip ascii_lower
         ''Fix the server'' None = ''high''
   \<and> answers [Some ''It is urgent.''] (priority_request ''Fix the server'' None)
       = Inr [Some ''It is urgent.'']
   \<and> analyze_task_priority (answers [Some ''It is urgent.'']) ascii_strip ascii_lower
         ''Fix the server'' None = ''medium''"
  using analyze_task_priority_total [of unreachable ascii_strip ascii_lower
      "''Fix the server''" "Some 2"]
    analyze_task_priority_total [of "answers [Some '' High '']" ascii_strip ascii_lower
      "''Fix the server''" None]
    priority_runs
  by (simp add: unreachable_def answers_def)

text \<open>
  C7, as the claim states it, fails: the backend answers with a JSON object whose
  title and description are both the empty text; both keys are there, so the result
  has \<open>success\<close> true and an empty title and description.
\<close>

theorem draft_success_with_empty_title:
  "success (generate_ai_task_description (answers [Some empty_payload]) sample_loads
              ''Legal'' ''contract review'' None None)
   \<and> draft.title (generate_ai_task_description (answers [Some empty_payload]) sample_loads
              ''Legal'' ''contract review'' None None) = Text []
   \<and> draft.description (generate_ai_task_description (answers [Some empty_payload])
              sample_loads ''Legal'' ''contract review'' None None) = Text []"
  by (simp add: generate_ai_task_description_def draft_fields_def first_content_def
        answers_def sample_loads_def py_in_def py_getitem_def empty_payload_def
        full_payload_def dquoted_def)

lemma draft_fields_success:
  assumes "draft_fields create loads service_type0 keywords client_name priority0 = Inr (t, d)"
  shows "\<exists>content0 rest entries.
      create (description_request service_type0 keywords client_name priority0)
        = Inr (Some content0 # rest)
    \<and> loads content0 = Inr (Object entries)
    \<and> map_of entries ''title'' = Some t
    \<and> map_of entries ''description'' = Some d"
  using assms
  by (auto simp add: draft_fields_def first_content_def py_in_def py_getitem_def
       split: sum.splits list.splits option.splits jvalue.splits if_splits)

text \<open>
  C7, amended. When the backend raises, answers with no content, or answers with a
  JSON object that lacks \<open>title\<close> or \<open>description\<close>, the result is the failure
  dictionary: \<open>success\<close> false, empty title and description, and the exception as
  diagnostic. A result with \<open>success\<close> true carries the values the backend's JSON
  object has under \<open>title\<close> and \<open>description\<close>, as they are (they may be empty);
  every other result is a failure dictionary.
\<close>

theorem generate_ai_task_description_result:
  "(\<forall>ex. create (description_request service_type0 keywords client_name priority0) = Inl ex
      \<longrightarrow> generate_ai_task_description create loads service_type0 keywords client_name
            priority0 = failed_draft ex)
   \<and> (\<forall>rest. create (description_request service_type0 keywords client_name priority0)
          = Inr (None # rest)
      \<longrightarrow> generate_ai_task_description create loads service_type0 keywords client_name
            priority0 = failed_draft (ValueError ''No content received from AI''))
   \<and> (\<forall>content0 rest entries.
        create (description_request service_type0 keywords client_name priority0)
          = Inr (Some content0 # rest)
        \<and> loads content0 = Inr (Object entries)
        \<and> (map_of entries ''title'' = None \<or> map_of entries ''description'' = None)
      \<longrightarrow> generate_ai_task_description create loads service_type0 keywords client_name
            priority0 = failed_draft (ValueError ''AI response missing required fields''))
   \<and> (success (generate_ai_task_description create loads service_type0 keywords client_name
                 priority0)
      \<longrightarrow> (\<exists>content0 rest entries.
            create (description_request service_type0 keywords client_name priority0)
              = Inr (Some content0 # rest)
          \<and> loads content0 = Inr (Object entries)
          \<and> map_of entries ''title''
              = Some (draft.title (generate_ai_task_description create loads service_type0
                        keywords client_name priority0))
          \<and> map_of entries ''description''
              = Some (draft.description (generate_ai_task_description create loads
                        service_type0 keywords client_name priority0))))
   \<and> (\<not> success (generate_ai_task_description create loads service_type0 keywords
                   client_name priority0)
      \<longrightarrow> (\<exists>ex. generate_ai_task_description create loads service_type0 keywords
                   client_name priority0 = failed_draft ex))"
proof (intro conjI allI impI)
  fix ex
  assume "create (description_request service_type0 keywords client_name priority0) = Inl ex"
  then show "generate_ai_task_description create loads service_type0 keywords client_name
            priority0 = failed_draft ex"
    by (simp add: generate_ai_task_description_def draft_fields_def failed_draft_def)
next
  fix rest
  assume "create (description_request service_type0 keywords client_name priority0)
          = Inr (None # rest)"
  then show "generate_ai_task_description create loads service_type0 keywords client_name
            priority0 = failed_draft (ValueError ''No content received from AI'')"
    by (simp add: generate_ai_task_description_def draft_fields_def failed_draft_def
          first_content_def)
next
  fix content0 rest entries
  assume "create (description_request service_type0 keywords client_name priority0)
          = Inr (Some content0 # rest)
        \<and> loads content0 = Inr (Object entries)
        \<and> (map_of entries ''title'' = None \<or> map_of entries ''description'' = None)"
  then show "generate_ai_task_description create loads service_type0 keywords client_name
            priority0 = failed_draft (ValueError ''AI response missing required fields'')"
    by (auto simp add: generate_ai_task_description_def draft_fields_def failed_draft_def
          first_content_def py_in_def py_getitem_def map_of_eq_None_iff
          split: option.splits)
next
  assume ok: "success (generate_ai_task_description create loads service_type0 keywords
                 client_name priority0)"
  then obtain t d where run:
    "draft_fields create loads service_type0 keywords client_name priority0 = Inr (t, d)"
    by (auto simp add: generate_ai_task_description_def split: sum.splits)
  from draft_fields_success [OF run] run
  show "\<exists>content0 rest entries.
            create (description_request service_type0 keywords client_name priority0)
              = Inr (Some content0 # rest)
          \<and> loads content0 = Inr (Object entries)
          \<and> map_of entries ''title''
              = Some (draft.title (generate_ai_task_description create loads service_type0
                        keywords client_name priority0))
          \<and> map_of entries ''description''
              = Some (draft.description (generate_ai_task_description create loads
                        service_type0 keywords client_name priority0))"
    by (auto simp add: generate_ai_task_description_def)
next
  assume "\<not> success (generate_ai_task_description create loads service_type0 keywords
                   client_name priority0)"
  then show "\<exists>ex. generate_ai_task_description create loads service_type0 keywords
                   client_name priority0 = failed_draft ex"
    by (auto simp add: generate_ai_task_description_def failed_draft_def split: sum.splits)
qed

theorem generate_ai_task_description_result_witness:
  "unreachable (description_request ''Legal'' ''contract review'' None None)
      = Inl (BackendError ''Connection error.'')
   \<and> generate_ai_task_description unreachable sample_loads ''Legal'' ''contract review''
        None None = failed_draft (BackendError ''Connection error.'')
   \<and> answers [None] (description_request ''Legal'' ''contract review'' None None)
        = Inr [None]
   \<and> generate_ai_task_description (answers [None]) sample_loads ''Legal''
        ''contract review'' None None
        = failed_draft (ValueError ''No content received from AI'')
   \<and> answers [Some partial_payload]
        (description_request ''Legal'' ''contract review'' None None)
        = Inr [Some partial_payload]
   \<and> sample_loads partial_payload = Inr (Object [(''title'', Text ''Audit the ledger'')])
   \<and> map_of [(''title'', Text ''Audit the ledger'')] ''description'' = None
   \<and> generate_ai_task_description (answers [Some partial_payload]) sample_loads ''Legal''
        ''contract review'' None None
        = failed_draft (ValueError ''AI response missing required fields'')
   \<and> success (generate_ai_task_description (answers [Some full_payload]) sample_loads
        ''Legal'' ''contract review'' None None)
   \<and> draft.title (generate_ai_task_description (answers [Some full_payload]) sample_loads
        ''Legal'' ''contract review'' None None) = Text ''Audit the ledger''
   \<and> draft.description (generate_ai_task_description (answers [Some full_payload])
        sample_loads ''Legal'' ''contract review'' None None) = Text ''Check every entry.''
   \<and> \<not> success (generate_ai_task_description unreachable sample_loads ''Legal''
        ''contract review'' None None)"
  using generate_ai_task_description_result [of unreachable "''Legal''" "''contract review''"
      None None sample_loads]
    generate_ai_task_description_result [of "answers [None]" "''Legal''" "''contract review''"
      None None sample_loads]
    generate_ai_task_description_result [of "answers [Some partial_payload]" "''Legal''"
      "''contract review''" None None sample_loads]
    generate_ai_task_description_result [of "answers [Some full_payload]" "''Legal''"
      "''contract review''" None None sample_loads]
  by (simp add: generate_ai_task_description_def draft_fields_def first_content_def
        unreachable_def answers_def sample_loads_def py_in_def py_getitem_def
        empty_payload_def full_payload_def partial_payload_def dquoted_def failed_draft_def)

end
